theory Spec2Isabelle
  imports Main "HOL-Library.Word" "HOL-Library.Multiset"
    "HOL-Library.Finite_Map" "HOL-Library.Char_ord" "HOL-Library.List_Lexorder"
begin

unbundle bit_operations_syntax

section \<open>Data model (package api/v1)\<close>

text \<open>
  Go strings are byte strings and are modelled as \<^typ>\<open>string\<close>. A \<open>metav1.Time\<close> is
  modelled as an integer count of nanoseconds since the zero time, so that
  \<open>IsZero\<close> is comparison with 0, \<open>Before\<close> is \<open><\<close> and \<open>After\<close> is \<open>>\<close>.
\<close>

type_synonym go_time = int

text \<open>
  Modelled from the spec: the declarations of \<open>diagnosisv1.Task\<close> and \<open>TaskSpec\<close> are not
  among the source files. The record has the fields that package util and its tests use:
  the object name and \<open>Spec.NodeName\<close>, the node the spec calls the bound node.
\<close>

record task_spec =
  taskNodeName :: string

record task =
  taskName :: string
  taskSpec :: task_spec

text \<open>\<open>NamespacedName\<close> and \<open>PodReference\<close> (api/v1/diagnosis_types.go).\<close>

record namespaced_name =
  nnNamespace :: string
  nnName :: string

record pod_reference = namespaced_name +
  refContainer :: string

text \<open>
  Modelled from the spec: the declaration of \<open>diagnosisv1.Abnormal\<close> is not among the
  source files. The record has the fields that the controller, the alert handler and the
  sorted list use, shaped like the Diagnosis record of the spec and of
  api/v1/diagnosis_types.go: object name and namespace, \<open>Spec.Source\<close>, \<open>Spec.NodeName\<close>,
  \<open>Spec.PodReference\<close> (a pointer, so optional), \<open>Status.Phase\<close>, \<open>Status.Conditions\<close> and
  \<open>Status.StartTime\<close>.
\<close>

record abnormal_condition =
  condType :: string
  condStatus :: string

record abnormal_spec =
  abnSource :: string
  abnNodeName :: string
  abnPodReference :: "pod_reference option"

record abnormal_status =
  abnPhase :: string
  abnConditions :: "abnormal_condition list"
  abnStartTime :: go_time

record abnormal =
  abnName :: string
  abnNamespace :: string
  abnSpec :: abnormal_spec
  abnStatus :: abnormal_status

text \<open>A Go run-time panic, as a value.\<close>

datatype panic = IndexOutOfRange int nat

section \<open>Package util: node affinity\<close>

text \<open>\<open>IsTaskNodeNameMatched\<close>: \<open>task.Spec.NodeName == nodeName\<close>.\<close>

definition IsTaskNodeNameMatched :: "task \<Rightarrow> string \<Rightarrow> bool" where
  "IsTaskNodeNameMatched t nodeName = (taskNodeName (taskSpec t) = nodeName)"

text \<open>
  \<open>RetrieveTasksOnNode\<close>: the \<open>for ... range tasks\<close> loop with its accumulator
  \<open>tasksOnNode\<close>, which starts as the empty slice and grows by \<open>append\<close>.
\<close>

fun RetrieveTasksOnNode_loop :: "task list \<Rightarrow> string \<Rightarrow> task list \<Rightarrow> task list" where
  "RetrieveTasksOnNode_loop [] nodeName tasksOnNode = tasksOnNode"
| "RetrieveTasksOnNode_loop (t # tasks) nodeName tasksOnNode =
     (if taskNodeName (taskSpec t) = nodeName
      then RetrieveTasksOnNode_loop tasks nodeName (tasksOnNode @ [t])
      else RetrieveTasksOnNode_loop tasks nodeName tasksOnNode)"

definition RetrieveTasksOnNode :: "task list \<Rightarrow> string \<Rightarrow> task list" where
  "RetrieveTasksOnNode tasks nodeName = RetrieveTasksOnNode_loop tasks nodeName []"

section \<open>Package types: SortedAbnormalListByStartTime\<close>

text \<open>
  Indexing a Go slice with an index outside \<open>0 \<le> i < len\<close> panics; \<open>index\<close> makes that
  a value. Go's \<open>int\<close> is modelled as \<^typ>\<open>int\<close>: the comparator does no arithmetic
  on its indices.
\<close>

definition index :: "'a list \<Rightarrow> int \<Rightarrow> panic + 'a" where
  "index xs i =
     (if 0 \<le> i \<and> i < int (length xs) then Inr (xs ! nat i)
      else Inl (IndexOutOfRange i (length xs)))"

definition Len :: "abnormal list \<Rightarrow> int" where
  "Len al = int (length al)"

text \<open>
  \<open>Less\<close>: the guard \<open>i > len(al) || j > len(al)\<close>, then \<open>al[i]\<close> is evaluated before
  \<open>al[j]\<close>, and \<open>Before\<close> on two non-nil times compares them.
\<close>

definition Less :: "abnormal list \<Rightarrow> int \<Rightarrow> int \<Rightarrow> panic + bool" where
  "Less al i j =
     (if i > int (length al) \<or> j > int (length al) then Inr False
      else (case index al i of
              Inl p \<Rightarrow> Inl p
            | Inr a \<Rightarrow>
                (case index al j of
                   Inl p \<Rightarrow> Inl p
                 | Inr b \<Rightarrow> Inr (abnStartTime (abnStatus a) < abnStartTime (abnStatus b)))))"

section \<open>Package util: bounded queues\<close>

text \<open>
  An open Go channel made by \<open>make(chan T, cap)\<close>: the values buffered (oldest first),
  the capacity, the number of goroutines blocked receiving from it, and the values that
  were handed directly to such a receiver. A send proceeds without blocking when a
  receiver is waiting or the buffer has room.
\<close>

record 'a channel =
  chanBuf :: "'a list"
  chanCap :: nat
  chanRecvq :: nat
  chanHanded :: "'a list"

definition chan_can_send :: "'a channel \<Rightarrow> bool" where
  "chan_can_send ch = (0 < chanRecvq ch \<or> length (chanBuf ch) < chanCap ch)"

definition chan_send :: "'a channel \<Rightarrow> 'a \<Rightarrow> 'a channel" where
  "chan_send ch x =
     (if 0 < chanRecvq ch
      then ch\<lparr>chanRecvq := chanRecvq ch - 1, chanHanded := chanHanded ch @ [x]\<rparr>
      else ch\<lparr>chanBuf := chanBuf ch @ [x]\<rparr>)"

text \<open>
  A \<open>select\<close> with a \<open>default\<close>: the cases that can proceed are collected in source
  order; when none can, \<open>default\<close> runs; when several can, the run time picks one of
  them (\<open>pick\<close> is that choice). \<open>ctx_done\<close> says whether \<open>ctx.Done()\<close> is closed.
\<close>

datatype select_case = CaseCtxDone | CaseSend

definition ready_cases :: "bool \<Rightarrow> 'a channel \<Rightarrow> select_case list" where
  "ready_cases ctx_done ch =
     (if ctx_done then [CaseCtxDone] else []) @ (if chan_can_send ch then [CaseSend] else [])"

text \<open>
  \<open>QueueDiagnosis\<close>, \<open>QueueTask\<close>, \<open>QueueOperationSet\<close> and \<open>QueueEvent\<close> are the same
  \<open>select\<close> at four payload types; none of them inspects the payload, which is left
  polymorphic. The result is the error (\<open>None\<close> for \<open>nil\<close>) and the channel afterwards.
\<close>

definition QueueDiagnosis :: "bool \<Rightarrow> nat \<Rightarrow> 'a channel \<Rightarrow> 'a \<Rightarrow> string option \<times> 'a channel" where
  "QueueDiagnosis ctx_done pick ch diagnosis =
     (case ready_cases ctx_done ch of
        [] \<Rightarrow> (Some ''channel is blocked'', ch)
      | c # cs \<Rightarrow>
          (case (c # cs) ! (pick mod length (c # cs)) of
             CaseCtxDone \<Rightarrow> (None, ch)
           | CaseSend \<Rightarrow> (None, chan_send ch diagnosis)))"

definition QueueTask :: "bool \<Rightarrow> nat \<Rightarrow> 'a channel \<Rightarrow> 'a \<Rightarrow> string option \<times> 'a channel" where
  "QueueTask ctx_done pick ch task =
     (case ready_cases ctx_done ch of
        [] \<Rightarrow> (Some ''channel is blocked'', ch)
      | c # cs \<Rightarrow>
          (case (c # cs) ! (pick mod length (c # cs)) of
             CaseCtxDone \<Rightarrow> (None, ch)
           | CaseSend \<Rightarrow> (None, chan_send ch task)))"

definition QueueOperationSet :: "bool \<Rightarrow> nat \<Rightarrow> 'a channel \<Rightarrow> 'a \<Rightarrow> string option \<times> 'a channel" where
  "QueueOperationSet ctx_done pick ch operationSet =
     (case ready_cases ctx_done ch of
        [] \<Rightarrow> (Some ''channel is blocked'', ch)
      | c # cs \<Rightarrow>
          (case (c # cs) ! (pick mod length (c # cs)) of
             CaseCtxDone \<Rightarrow> (None, ch)
           | CaseSend \<Rightarrow> (None, chan_send ch operationSet)))"

definition QueueEvent :: "bool \<Rightarrow> nat \<Rightarrow> 'a channel \<Rightarrow> 'a \<Rightarrow> string option \<times> 'a channel" where
  "QueueEvent ctx_done pick ch event =
     (case ready_cases ctx_done ch of
        [] \<Rightarrow> (Some ''channel is blocked'', ch)
      | c # cs \<Rightarrow>
          (case (c # cs) ! (pick mod length (c # cs)) of
             CaseCtxDone \<Rightarrow> (None, ch)
           | CaseSend \<Rightarrow> (None, chan_send ch event)))"

text \<open>
  Modelled from the spec: \<open>util.QueueAbnormal\<close>, which the controller calls, is not among
  the source files. The spec says of the in-process queues that "an enqueue that would
  block returns an error"; the definition is the \<open>select\<close> of its four siblings above.
\<close>

definition QueueAbnormal :: "bool \<Rightarrow> nat \<Rightarrow> abnormal channel \<Rightarrow> abnormal \<Rightarrow> string option \<times> abnormal channel" where
  "QueueAbnormal ctx_done pick ch abnormal =
     (case ready_cases ctx_done ch of
        [] \<Rightarrow> (Some ''channel is blocked'', ch)
      | c # cs \<Rightarrow>
          (case (c # cs) ! (pick mod length (c # cs)) of
             CaseCtxDone \<Rightarrow> (None, ch)
           | CaseSend \<Rightarrow> (None, chan_send ch abnormal)))"

section \<open>Package controllers: AbnormalReconciler\<close>

text \<open>
  Modelled from the spec: the phase and condition constants of \<open>diagnosisv1\<close> that
  \<open>Reconcile\<close> switches on are not among the source files. Their values are the names the
  spec gives the terminal phases (Succeeded, Failed, Unknown) and the names the
  controller's own comment and log messages give the others.
\<close>

definition InformationCollecting :: string where
  "InformationCollecting = ''InformationCollecting''"

definition AbnormalDiagnosing :: string where
  "AbnormalDiagnosing = ''Diagnosing''"

definition AbnormalRecovering :: string where
  "AbnormalRecovering = ''Recovering''"

definition AbnormalSucceeded :: string where
  "AbnormalSucceeded = ''Succeeded''"

definition AbnormalFailed :: string where
  "AbnormalFailed = ''Failed''"

definition AbnormalUnknown :: string where
  "AbnormalUnknown = ''Unknown''"

definition InformationCollected :: string where
  "InformationCollected = ''InformationCollected''"

text \<open>
  Modelled from the spec: \<open>util.GetAbnormalCondition\<close> is not among the source files; it
  is its sibling \<open>GetDiagnosisCondition\<close> at the Abnormal types: the index and the
  condition of the first entry of the given type, \<open>(-1, nil)\<close> when there is none.
\<close>

fun GetAbnormalConditionFromList ::
  "abnormal_condition list \<Rightarrow> string \<Rightarrow> int \<Rightarrow> int \<times> abnormal_condition option" where
  "GetAbnormalConditionFromList [] conditionType i = (-1, None)"
| "GetAbnormalConditionFromList (c # cs) conditionType i =
     (if condType c = conditionType then (i, Some c)
      else GetAbnormalConditionFromList cs conditionType (i + 1))"

definition GetAbnormalCondition :: "abnormal_status \<Rightarrow> string \<Rightarrow> int \<times> abnormal_condition option" where
  "GetAbnormalCondition status conditionType =
     GetAbnormalConditionFromList (abnConditions status) conditionType 0"

text \<open>
  The API server, as the reconciler sees it through \<open>client.Client\<close>: what \<open>Get\<close> answers
  for an Abnormal and for a Pod, and whether \<open>Update\<close> is accepted. \<open>Reconcile\<close> reports the
  calls it made, in order. An API error carries its message.
\<close>

datatype api_error =
  NotFound string
| AlreadyExists string
| Conflict string
| ServerError string

fun error_text :: "api_error \<Rightarrow> string" where
  "error_text (NotFound m) = m"
| "error_text (AlreadyExists m) = m"
| "error_text (Conflict m) = m"
| "error_text (ServerError m) = m"

fun IsNotFound :: "api_error \<Rightarrow> bool" where
  "IsNotFound (NotFound m) = True"
| "IsNotFound e = False"

fun IsAlreadyExists :: "api_error \<Rightarrow> bool" where
  "IsAlreadyExists (AlreadyExists m) = True"
| "IsAlreadyExists e = False"

definition IgnoreNotFound :: "api_error \<Rightarrow> api_error option" where
  "IgnoreNotFound e = (if IsNotFound e then None else Some e)"

record pod =
  podName :: string
  podNamespace :: string
  podNodeName :: string

record cluster_client =
  getAbnormal :: "namespaced_name \<Rightarrow> api_error + abnormal"
  getPod :: "namespaced_name \<Rightarrow> api_error + pod"
  updateAbnormal :: "abnormal \<Rightarrow> api_error option"

datatype api_call =
  GetAbnormalCall namespaced_name
| GetPodCall namespaced_name
| UpdateAbnormalCall abnormal

record reconciler =
  rClient :: cluster_client
  rMode :: string
  sourceManagerCh :: "abnormal channel"
  informationManagerCh :: "abnormal channel"
  diagnoserChainCh :: "abnormal channel"
  recovererChainCh :: "abnormal channel"

record reconcile_result =
  rrCalls :: "api_call list"
  rrReconciler :: reconciler
  rrError :: "api_error option"

text \<open>
  \<open>Reconcile\<close>. The context is \<open>context.Background()\<close>, which is never cancelled, so the
  queue calls run with \<open>ctx_done = False\<close>; a failed enqueue is logged and otherwise
  ignored. Log output is not modelled. The returned \<open>ctrl.Result\<close> is always empty and is
  left out.
\<close>

definition Reconcile :: "reconciler \<Rightarrow> namespaced_name \<Rightarrow> reconcile_result" where
  "Reconcile r req =
     (case getAbnormal (rClient r) req of
        Inl e \<Rightarrow> \<lparr>rrCalls = [GetAbnormalCall req], rrReconciler = r, rrError = IgnoreNotFound e\<rparr>
      | Inr abnormal \<Rightarrow>
          if rMode r = ''master'' then
            (if abnPhase (abnStatus abnormal) = '''' then
               (if abnNodeName (abnSpec abnormal) = '''' then
                  (case abnPodReference (abnSpec abnormal) of
                     None \<Rightarrow>
                       \<lparr>rrCalls = [GetAbnormalCall req], rrReconciler = r, rrError = None\<rparr>
                   | Some ref \<Rightarrow>
                       (let key = \<lparr>nnNamespace = nnNamespace ref, nnName = nnName ref\<rparr> in
                        case getPod (rClient r) key of
                          Inl e \<Rightarrow>
                            \<lparr>rrCalls = [GetAbnormalCall req, GetPodCall key], rrReconciler = r,
                             rrError = IgnoreNotFound e\<rparr>
                        | Inr pod \<Rightarrow>
                            (let abnormal' =
                                   abnormal\<lparr>abnSpec := (abnSpec abnormal)\<lparr>abnNodeName := podNodeName pod\<rparr>\<rparr>;
                                 calls = [GetAbnormalCall req, GetPodCall key, UpdateAbnormalCall abnormal']
                             in case updateAbnormal (rClient r) abnormal' of
                                  Some e \<Rightarrow>
                                    \<lparr>rrCalls = calls, rrReconciler = r, rrError = IgnoreNotFound e\<rparr>
                                | None \<Rightarrow>
                                    \<lparr>rrCalls = calls,
                                     rrReconciler = r\<lparr>sourceManagerCh :=
                                       snd (QueueAbnormal False 0 (sourceManagerCh r) abnormal')\<rparr>,
                                     rrError = None\<rparr>)))
                else
                  \<lparr>rrCalls = [GetAbnormalCall req],
                   rrReconciler = r\<lparr>sourceManagerCh :=
                     snd (QueueAbnormal False 0 (sourceManagerCh r) abnormal)\<rparr>,
                   rrError = None\<rparr>)
             else \<lparr>rrCalls = [GetAbnormalCall req], rrReconciler = r, rrError = None\<rparr>)
          else if rMode r = ''agent'' then
            (if abnPhase (abnStatus abnormal) = InformationCollecting then
               (case snd (GetAbnormalCondition (abnStatus abnormal) InformationCollected) of
                  Some condition \<Rightarrow>
                    \<lparr>rrCalls = [GetAbnormalCall req], rrReconciler = r, rrError = None\<rparr>
                | None \<Rightarrow>
                    \<lparr>rrCalls = [GetAbnormalCall req],
                     rrReconciler = r\<lparr>informationManagerCh :=
                       snd (QueueAbnormal False 0 (informationManagerCh r) abnormal)\<rparr>,
                     rrError = None\<rparr>)
             else if abnPhase (abnStatus abnormal) = AbnormalDiagnosing then
               \<lparr>rrCalls = [GetAbnormalCall req],
                rrReconciler = r\<lparr>diagnoserChainCh :=
                  snd (QueueAbnormal False 0 (diagnoserChainCh r) abnormal)\<rparr>,
                rrError = None\<rparr>
             else if abnPhase (abnStatus abnormal) = AbnormalRecovering then
               \<lparr>rrCalls = [GetAbnormalCall req],
                rrReconciler = r\<lparr>recovererChainCh :=
                  snd (QueueAbnormal False 0 (recovererChainCh r) abnormal)\<rparr>,
                rrError = None\<rparr>
             else if abnPhase (abnStatus abnormal) = AbnormalSucceeded then
               \<lparr>rrCalls = [GetAbnormalCall req], rrReconciler = r, rrError = None\<rparr>
             else if abnPhase (abnStatus abnormal) = AbnormalFailed then
               \<lparr>rrCalls = [GetAbnormalCall req], rrReconciler = r, rrError = None\<rparr>
             else if abnPhase (abnStatus abnormal) = AbnormalUnknown then
               \<lparr>rrCalls = [GetAbnormalCall req], rrReconciler = r, rrError = None\<rparr>
             else \<lparr>rrCalls = [GetAbnormalCall req], rrReconciler = r, rrError = None\<rparr>)
          else \<lparr>rrCalls = [GetAbnormalCall req], rrReconciler = r, rrError = None\<rparr>)"

section \<open>Package features: the feature gate\<close>

text \<open>
  \<open>featuregate.FeatureSpec\<close> of k8s.io/component-base: the default, whether the gate is
  locked to its default, and the release stage, whose four values are the strings below.
\<close>

record feature_spec =
  fsDefault :: bool
  fsLockToDefault :: bool
  fsPreRelease :: string

definition Alpha :: string where
  "Alpha = ''ALPHA''"

definition Beta :: string where
  "Beta = ''BETA''"

definition GA :: string where
  "GA = ''''"

definition Deprecated :: string where
  "Deprecated = ''DEPRECATED''"

definition alpha_gate :: "bool \<Rightarrow> feature_spec" where
  "alpha_gate d = \<lparr>fsDefault = d, fsLockToDefault = False, fsPreRelease = Alpha\<rparr>"

definition defaultKubeDiagnoserFeatureGates :: "(string \<times> feature_spec) list" where
  "defaultKubeDiagnoserFeatureGates =
     [(''Alertmanager'', alpha_gate True),
      (''Eventer'', alpha_gate False),
      (''ClusterHealthEvaluator'', alpha_gate True),
      (''PodCollector'', alpha_gate True),
      (''ContainerCollector'', alpha_gate True),
      (''ProcessCollector'', alpha_gate True),
      (''FileStatusCollector'', alpha_gate True),
      (''SystemdCollector'', alpha_gate True),
      (''PodDiskUsageDiagnoser'', alpha_gate True),
      (''TerminatingPodDiagnoser'', alpha_gate True),
      (''SignalRecoverer'', alpha_gate True)]"

text \<open>
  The gate's two atomic values: the known features and the enabled ones. Go maps are
  finite maps; a map copied entry by entry is the same finite map. The mutex is not
  modelled: \<open>SetFromMap\<close> is one step from a gate to a gate.
\<close>

record kubeDiagnoserFeatureGate =
  known :: "(string, feature_spec) fmap"
  enabled :: "(string, bool) fmap"

definition NewFeatureGate :: kubeDiagnoserFeatureGate where
  "NewFeatureGate =
     \<lparr>known = fold (\<lambda>(key, v) knownMap. fmupd key v knownMap)
                defaultKubeDiagnoserFeatureGates fmempty,
      enabled = fold (\<lambda>(key, v) enabledMap. fmupd key (fsDefault v) enabledMap)
                  defaultKubeDiagnoserFeatureGates fmempty\<rparr>"

definition Enabled :: "kubeDiagnoserFeatureGate \<Rightarrow> string \<Rightarrow> bool" where
  "Enabled kf key =
     (case fmlookup (enabled kf) key of
        Some v \<Rightarrow> v
      | None \<Rightarrow> (case fmlookup (known kf) key of Some spec \<Rightarrow> fsDefault spec | None \<Rightarrow> False))"

text \<open>
  \<open>KnownFeatures\<close>: one line \<open>key=true|false (stage - default=bool)\<close> for every known
  feature that is neither GA nor deprecated, sorted as strings. The map is walked in key
  order here; the sort makes the result independent of the order of the walk.
\<close>

definition describe_feature :: "string \<times> feature_spec \<Rightarrow> string" where
  "describe_feature kv =
     fst kv @ ''=true|false ('' @ fsPreRelease (snd kv) @ '' - default=''
       @ (if fsDefault (snd kv) then ''true'' else ''false'') @ '')''"

definition KnownFeatures :: "kubeDiagnoserFeatureGate \<Rightarrow> string list" where
  "KnownFeatures kf =
     sort (map describe_feature
       (filter (\<lambda>kv. \<not> (fsPreRelease (snd kv) = GA \<or> fsPreRelease (snd kv) = Deprecated))
          (sorted_list_of_fmap (known kf))))"

datatype gate_error =
  UnrecognizedFeatureGate string
| LockedToDefault string bool bool

text \<open>
  \<open>SetFromMap\<close>. The argument map is given as the list of its entries in the order the
  \<open>range\<close> loop visits them. The loop returns at the first entry it rejects, before
  anything is stored.
\<close>

fun SetFromMap_loop ::
  "(string, feature_spec) fmap \<Rightarrow> (string \<times> bool) list \<Rightarrow> (string, bool) fmap
   \<Rightarrow> gate_error + (string, bool) fmap" where
  "SetFromMap_loop knownMap [] enabledMap = Inr enabledMap"
| "SetFromMap_loop knownMap ((key, v) # featureMap) enabledMap =
     (case fmlookup knownMap key of
        None \<Rightarrow> Inl (UnrecognizedFeatureGate key)
      | Some featureSpec \<Rightarrow>
          if fsLockToDefault featureSpec \<and> fsDefault featureSpec \<noteq> v
          then Inl (LockedToDefault key v (fsDefault featureSpec))
          else SetFromMap_loop knownMap featureMap (fmupd key v enabledMap))"

definition SetFromMap ::
  "kubeDiagnoserFeatureGate \<Rightarrow> (string \<times> bool) list \<Rightarrow> gate_error option \<times> kubeDiagnoserFeatureGate" where
  "SetFromMap kf featureMap =
     (let knownMap = known kf; enabledMap = enabled kf
      in case SetFromMap_loop knownMap featureMap enabledMap of
           Inl e \<Rightarrow> (Some e, kf)
         | Inr enabledMap' \<Rightarrow> (None, kf\<lparr>known := knownMap, enabled := enabledMap'\<rparr>))"

text \<open>
  An entry that \<open>SetFromMap\<close> refuses: the gate is not known, or it is locked to its
  default and the entry gives another value.
\<close>

definition gate_refused :: "(string, feature_spec) fmap \<Rightarrow> string \<times> bool \<Rightarrow> bool" where
  "gate_refused knownMap kv =
     (case fmlookup knownMap (fst kv) of
        None \<Rightarrow> True
      | Some featureSpec \<Rightarrow> fsLockToDefault featureSpec \<and> fsDefault featureSpec \<noteq> snd kv)"

section \<open>Package alertmanager\<close>

text \<open>
  A Prometheus alert (\<open>types.Alert\<close> of the alertmanager library), as the handler reads
  it: the label set, the start and end times, and the fingerprint, which the library
  computes from the label set (\<open>alert.Fingerprint()\<close>, an unsigned 64-bit number).
\<close>

record alert =
  alertLabels :: "(string \<times> string) list"
  alertStartsAt :: go_time
  alertEndsAt :: go_time
  alertFingerprint :: "64 word"

text \<open>\<open>alert.Name()\<close> is the value of the label \<open>alertname\<close>, empty when there is none.\<close>

definition Name :: "alert \<Rightarrow> string" where
  "Name a = (case map_of (alertLabels a) ''alertname'' of Some v \<Rightarrow> v | None \<Rightarrow> '''')"

text \<open>
  \<open>alert.Resolved()\<close> is \<open>ResolvedAt(time.Now())\<close>: an alert with no end time is not
  resolved, and otherwise it is resolved unless its end time is after the given time.
\<close>

definition ResolvedAt :: "alert \<Rightarrow> go_time \<Rightarrow> bool" where
  "ResolvedAt a ts = (if alertEndsAt a = 0 then False else \<not> alertEndsAt a > ts)"

text \<open>
  \<open>Fingerprint.String()\<close> prints the number with \<open>%016x\<close>: sixteen hexadecimal digits,
  lower case, padded with zeros.
\<close>

definition hex_digit :: "nat \<Rightarrow> char" where
  "hex_digit n = ''0123456789abcdef'' ! (n mod 16)"

definition FingerprintString :: "64 word \<Rightarrow> string" where
  "FingerprintString f = map (\<lambda>i. hex_digit (unat (drop_bit (4 * (15 - i)) f AND 15))) [0..<16]"

text \<open>
  \<open>strings.ToLower\<close>, on the bytes of the ASCII range: the letters A to Z are mapped to
  a to z and every other byte is kept.
\<close>

definition to_lower_byte :: "char \<Rightarrow> char" where
  "to_lower_byte c =
     (if CHR ''A'' \<le> c \<and> c \<le> CHR ''Z'' then char_of (of_char c + (32::nat)) else c)"

definition ToLower :: "string \<Rightarrow> string" where
  "ToLower s = map to_lower_byte s"

text \<open>
  Modelled from the spec: the constant \<open>util.PrometheusAlertGeneratedAbnormalPrefix\<close> is
  not among the source files. The spec gives the naming convention as
  \<open>prometheus-alert.<name>.<fp>\<close>, so the prefix is \<open>prometheus-alert\<close>.
\<close>

definition PrometheusAlertGeneratedAbnormalPrefix :: string where
  "PrometheusAlertGeneratedAbnormalPrefix = ''prometheus-alert''"

text \<open>\<open>util.DefautlNamespace\<close>, as package util declares it.\<close>

definition DefautlNamespace :: string where
  "DefautlNamespace = ''kubediag''"

text \<open>
  Modelled from the spec: the constant \<open>diagnosisv1.CustomSource\<close> is not among the
  source files; its value is taken to be its name.
\<close>

definition CustomSource :: string where
  "CustomSource = ''Custom''"

text \<open>
  The record the handler builds for an alert: the name is
  \<open>Sprintf("%s.%s.%s", prefix, ToLower(alert.Name()), alert.Fingerprint().String()[:7])\<close>.
  The slice \<open>[:7]\<close> of a string of sixteen bytes is its first seven bytes.
\<close>

definition alert_abnormal :: "alert \<Rightarrow> abnormal" where
  "alert_abnormal a =
     \<lparr>abnName = PrometheusAlertGeneratedAbnormalPrefix @ ''.'' @ ToLower (Name a) @ ''.''
                 @ take 7 (FingerprintString (alertFingerprint a)),
      abnNamespace = DefautlNamespace,
      abnSpec = \<lparr>abnSource = CustomSource, abnNodeName = ''my-node'', abnPodReference = None\<rparr>,
      abnStatus = \<lparr>abnPhase = '''', abnConditions = [], abnStartTime = 0\<rparr>\<rparr>"

text \<open>
  What the handler takes from outside: the JSON decoder for the list of alerts, the
  successive readings of \<open>time.Now()\<close> during the request, and the answer of
  \<open>client.Create\<close>.
\<close>

record handler_env =
  envUnmarshal :: "string \<Rightarrow> string + alert list"
  envClock :: "nat \<Rightarrow> go_time"
  envCreate :: "abnormal \<Rightarrow> api_error option"

record alertmanager =
  repeatInterval :: int
  firingAlertSet :: "64 word \<rightharpoonup> go_time"

text \<open>
  The state of one run of the loop over the alerts: the firing set, the number of clock
  readings taken so far, and the records for which \<open>Create\<close> was called, in order.
\<close>

record handler_run =
  hrFiring :: "64 word \<rightharpoonup> go_time"
  hrTick :: nat
  hrCreated :: "abnormal list"

text \<open>
  The body of the loop \<open>for _, alert := range alerts\<close>, for one alert: the error with
  which the handler returns (\<open>None\<close> when the loop goes on to the next alert, by
  \<open>continue\<close> or by reaching the end of the body) and the run afterwards. \<open>Resolved()\<close>
  reads the clock once, and \<open>now := time.Now()\<close> reads it again. A \<open>Create\<close> error other
  than "already exists" ends the request; the firing time is stored after a \<open>Create\<close>
  that succeeded or found the record already there.
\<close>

definition Handler_body ::
  "int \<Rightarrow> handler_env \<Rightarrow> alert \<Rightarrow> handler_run \<Rightarrow> api_error option \<times> handler_run" where
  "Handler_body interval env a run =
     (if ResolvedAt a (envClock env (hrTick run))
      then (None, run\<lparr>hrTick := hrTick run + 1\<rparr>)
      else
        (let fingerprint = alertFingerprint a;
             now = envClock env (hrTick run + 1)
         in if (case hrFiring run fingerprint of
                  Some lastFiring \<Rightarrow> lastFiring > now - interval
                | None \<Rightarrow> False)
            then (None, run\<lparr>hrTick := hrTick run + 2\<rparr>)
            else
              (case envCreate env (alert_abnormal a) of
                 Some e \<Rightarrow>
                   if \<not> IsAlreadyExists e
                   then (Some e, run\<lparr>hrTick := hrTick run + 2,
                                      hrCreated := hrCreated run @ [alert_abnormal a]\<rparr>)
                   else (None, run\<lparr>hrFiring := (hrFiring run)(fingerprint \<mapsto> now),
                                   hrTick := hrTick run + 2,
                                   hrCreated := hrCreated run @ [alert_abnormal a]\<rparr>)
               | None \<Rightarrow>
                   (None, run\<lparr>hrFiring := (hrFiring run)(fingerprint \<mapsto> now),
                              hrTick := hrTick run + 2,
                              hrCreated := hrCreated run @ [alert_abnormal a]\<rparr>))))"

fun Handler_loop ::
  "int \<Rightarrow> handler_env \<Rightarrow> alert list \<Rightarrow> handler_run \<Rightarrow> api_error option \<times> handler_run" where
  "Handler_loop interval env [] run = (None, run)"
| "Handler_loop interval env (a # alerts) run =
     (case Handler_body interval env a run of
        (Some e, run') \<Rightarrow> (Some e, run')
      | (None, run') \<Rightarrow> Handler_loop interval env alerts run')"

record http_request =
  reqMethod :: string
  reqBody :: "string + string"

record http_response =
  respStatus :: nat
  respBody :: string

text \<open>
  \<open>Handler\<close>: the response, the alertmanager afterwards (its firing set is a Go map,
  updated in place) and the records for which \<open>Create\<close> was called. \<open>http.Error\<close> writes
  the message and a newline.
\<close>

definition Handler ::
  "alertmanager \<Rightarrow> handler_env \<Rightarrow> http_request \<Rightarrow> http_response \<times> alertmanager \<times> abnormal list" where
  "Handler am env r =
     (if reqMethod r = ''POST'' then
        (case reqBody r of
           Inl e \<Rightarrow>
             (\<lparr>respStatus = 400, respBody = ''unable to read request body: '' @ e @ [CHR 0x0A]\<rparr>,
              am, [])
         | Inr body \<Rightarrow>
             (case envUnmarshal env body of
                Inl e \<Rightarrow>
                  (\<lparr>respStatus = 500,
                    respBody = ''failed to unmarshal request body: '' @ e @ [CHR 0x0A]\<rparr>, am, [])
              | Inr alerts \<Rightarrow>
                  (case Handler_loop (repeatInterval am) env alerts
                          \<lparr>hrFiring = firingAlertSet am, hrTick = 0, hrCreated = []\<rparr> of
                     (Some e, run) \<Rightarrow>
                       (\<lparr>respStatus = 500,
                         respBody = ''unable to create abnormal: '' @ error_text e @ [CHR 0x0A]\<rparr>,
                        am\<lparr>firingAlertSet := hrFiring run\<rparr>, hrCreated run)
                   | (None, run) \<Rightarrow>
                       (\<lparr>respStatus = 200, respBody = ''OK''\<rparr>,
                        am\<lparr>firingAlertSet := hrFiring run\<rparr>, hrCreated run))))
      else
        (\<lparr>respStatus = 405,
          respBody = ''method '' @ reqMethod r @ '' is not supported'' @ [CHR 0x0A]\<rparr>, am, []))"

text \<open>
  The test the loop applies to an alert in a given run: it is firing at the first clock
  reading, and its fingerprint has no firing time later than the repeat interval before
  the second reading.
\<close>

definition alert_accepted :: "int \<Rightarrow> handler_env \<Rightarrow> alert \<Rightarrow> handler_run \<Rightarrow> bool" where
  "alert_accepted interval env a run =
     (\<not> ResolvedAt a (envClock env (hrTick run))
      \<and> (case hrFiring run (alertFingerprint a) of
            Some lastFiring \<Rightarrow> lastFiring \<le> envClock env (hrTick run + 1) - interval
          | None \<Rightarrow> True))"

section \<open>Package util: ComputeHash\<close>

text \<open>
  The template is an \<open>interface{}\<close>. The Go values it can hold are modelled by
  booleans, integers, strings, nil values, slices, structs (fields in declaration order)
  and maps with integer or string keys; each value carries the name of its Go type. A map
  is given by its entries in the order in which the run time happens to iterate over it.
\<close>

datatype go_value =
  GoBool string bool
| GoInt string int
| GoString string string
| GoNil string
| GoSlice string "go_value list"
| GoStruct string "(string \<times> go_value) list"
| GoMapInt string "(int \<times> go_value) list"
| GoMapString string "(string \<times> go_value) list"

fun type_name :: "go_value \<Rightarrow> string" where
  "type_name (GoBool t b) = t"
| "type_name (GoInt t i) = t"
| "type_name (GoString t s) = t"
| "type_name (GoNil t) = t"
| "type_name (GoSlice t xs) = t"
| "type_name (GoStruct t fs) = t"
| "type_name (GoMapInt t kvs) = t"
| "type_name (GoMapString t kvs) = t"

text \<open>
  Decimal printing of unsigned and signed integers (\<open>strconv.FormatUint\<close> and
  \<open>strconv.FormatInt\<close> in base 10), as \<open>fmt\<close> and go-spew print them.
\<close>

definition digit_char :: "nat \<Rightarrow> char" where
  "digit_char n = ''0123456789'' ! (n mod 10)"

function FormatUint :: "nat \<Rightarrow> string" where
  "FormatUint n = (if n < 10 then [digit_char n] else FormatUint (n div 10) @ [digit_char n])"
  by pat_completeness auto
termination
  by (relation "measure id") auto

definition FormatInt :: "int \<Rightarrow> string" where
  "FormatInt i = (if 0 \<le> i then FormatUint (nat i) else CHR ''-'' # FormatUint (nat (- i)))"

text \<open>
  The go-spew printer for the verb \<open>%#v\<close> with \<open>SortKeys\<close>, \<open>SpewKeys\<close> and
  \<open>DisableMethods\<close> set (a library; this follows its documented output format). A value
  is printed with its type in parentheses unless the enclosing slice or map has already
  given it; the elements of a slice are separated by spaces inside brackets; a struct
  prints \<open>name:value\<close> for each field inside braces; a map prints \<open>key:value\<close> for each
  entry inside \<open>map[...]\<close>, after sorting the keys (integers by value, strings by
  bytes). Pointer addresses are not printed by this verb.
\<close>

fun join_space :: "string list \<Rightarrow> string" where
  "join_space [] = []"
| "join_space [s] = s"
| "join_space (s # t # ss) = s @ '' '' @ join_space (t # ss)"

fun spew_format :: "bool \<Rightarrow> go_value \<Rightarrow> string" where
  "spew_format ign (GoBool t b) =
     (if ign then [] else ''('' @ t @ '')'') @ (if b then ''true'' else ''false'')"
| "spew_format ign (GoInt t i) = (if ign then [] else ''('' @ t @ '')'') @ FormatInt i"
| "spew_format ign (GoString t s) = (if ign then [] else ''('' @ t @ '')'') @ s"
| "spew_format ign (GoNil t) = (if ign then [] else ''('' @ t @ '')'') @ ''<nil>''"
| "spew_format ign (GoSlice t xs) =
     (if ign then [] else ''('' @ t @ '')'')
       @ ''['' @ join_space (map (spew_format True) xs) @ '']''"
| "spew_format ign (GoStruct t fs) =
     (if ign then [] else ''('' @ t @ '')'')
       @ ''{'' @ join_space (map (\<lambda>(n, v). n @ '':'' @ spew_format False v) fs) @ ''}''"
| "spew_format ign (GoMapInt t kvs) =
     (if ign then [] else ''('' @ t @ '')'')
       @ ''map['' @ join_space (map (\<lambda>(k, v). FormatInt k @ '':'' @ spew_format True v)
                                  (sort_key fst kvs)) @ '']''"
| "spew_format ign (GoMapString t kvs) =
     (if ign then [] else ''('' @ t @ '')'')
       @ ''map['' @ join_space (map (\<lambda>(k, v). k @ '':'' @ spew_format True v)
                                  (sort_key fst kvs)) @ '']''"

text \<open>
  \<open>fnv.New32a()\<close>: the 32-bit FNV-1a hash. Each byte written is xor-ed into the state,
  which is then multiplied by the FNV prime, modulo \<open>2^32\<close>.
\<close>

definition offset32 :: "32 word" where
  "offset32 = 2166136261"

definition prime32 :: "32 word" where
  "prime32 = 16777619"

fun fnv32a_write :: "32 word \<Rightarrow> string \<Rightarrow> 32 word" where
  "fnv32a_write h [] = h"
| "fnv32a_write h (c # cs) = fnv32a_write ((h XOR of_char c) * prime32) cs"

text \<open>
  \<open>SafeEncodeString\<close> replaces each character by \<open>AlphaNums[b % len(AlphaNums)]\<close>. The
  model takes every byte as one character, which is what the decimal digits passed by
  \<open>ComputeHash\<close> are.
\<close>

definition AlphaNums :: string where
  "AlphaNums = ''bcdfghjklmnpqrstvwxz2456789''"

definition SafeEncodeString :: "string \<Rightarrow> string" where
  "SafeEncodeString s = map (\<lambda>b. AlphaNums ! (of_char b mod length AlphaNums)) s"

text \<open>
  \<open>ComputeHash\<close>: print the template into the hasher, take \<open>Sum32\<close>, print it in
  decimal with \<open>fmt.Sprint\<close> and encode the digits.
\<close>

definition ComputeHash :: "go_value \<Rightarrow> string" where
  "ComputeHash template =
     SafeEncodeString (FormatUint (unat (fnv32a_write offset32 (spew_format False template))))"

text \<open>
  When two templates are the same Go value: they agree on every component, and two maps
  are the same when they have the same keys and the same value under each key, whatever
  the order of their entries.
\<close>

inductive same_value :: "go_value \<Rightarrow> go_value \<Rightarrow> bool" where
  same_bool: "same_value (GoBool t b) (GoBool t b)"
| same_int: "same_value (GoInt t i) (GoInt t i)"
| same_string: "same_value (GoString t s) (GoString t s)"
| same_nil: "same_value (GoNil t) (GoNil t)"
| same_slice: "list_all2 same_value xs ys \<Longrightarrow> same_value (GoSlice t xs) (GoSlice t ys)"
| same_struct: "map fst fs = map fst gs \<Longrightarrow> list_all2 same_value (map snd fs) (map snd gs) \<Longrightarrow>
     same_value (GoStruct t fs) (GoStruct t gs)"
| same_map_int: "distinct (map fst kvs) \<Longrightarrow> distinct (map fst kvs') \<Longrightarrow>
     fst ` set kvs = fst ` set kvs' \<Longrightarrow>
     (\<forall>k v v'. (k, v) \<in> set kvs \<longrightarrow> (k, v') \<in> set kvs' \<longrightarrow> same_value v v') \<Longrightarrow>
     same_value (GoMapInt t kvs) (GoMapInt t kvs')"
| same_map_string: "distinct (map fst kvs) \<Longrightarrow> distinct (map fst kvs') \<Longrightarrow>
     fst ` set kvs = fst ` set kvs' \<Longrightarrow>
     (\<forall>k v v'. (k, v) \<in> set kvs \<longrightarrow> (k, v') \<in> set kvs' \<longrightarrow> same_value v v') \<Longrightarrow>
     same_value (GoMapString t kvs) (GoMapString t kvs')"

section \<open>Package processors: DecodeOperationContext\<close>

text \<open>
  \<open>DecodeOperationContext\<close> is one call of \<open>json.Unmarshal\<close> into a \<open>map[string][]byte\<close>.
  The library is modelled as far as this call exercises it: the scanner that accepts
  exactly the JSON texts, the decoding of string literals, and the rules for storing a
  JSON value in a map from strings to byte slices (a byte slice is written as a string
  in standard base64). The body is taken to be valid UTF-8: bytes outside ASCII inside a
  string literal are copied as they are.
\<close>

datatype json =
  JNull
| JBool bool
| JNumber string
| JString string
| JArray "json list"
| JObject "(string \<times> json) list"

subsection \<open>String literals\<close>

definition hex_value :: "char \<Rightarrow> nat option" where
  "hex_value c =
     (let n = (of_char c :: nat) in
      if 48 \<le> n \<and> n \<le> 57 then Some (n - 48)
      else if 97 \<le> n \<and> n \<le> 102 then Some (n - 87)
      else if 65 \<le> n \<and> n \<le> 70 then Some (n - 55)
      else None)"

text \<open>\<open>getu4\<close>: the value of four hexadecimal digits, when there are four.\<close>

definition getu4 :: "string \<Rightarrow> nat option" where
  "getu4 s =
     (case s of
        a # b # c # d # rest \<Rightarrow>
          (case (hex_value a, hex_value b, hex_value c, hex_value d) of
             (Some x, Some y, Some z, Some w) \<Rightarrow> Some (((x * 16 + y) * 16 + z) * 16 + w)
           | _ \<Rightarrow> None)
      | _ \<Rightarrow> None)"

text \<open>\<open>utf8.EncodeRune\<close> for a code point below \<open>0x110000\<close>.\<close>

definition utf8_encode :: "nat \<Rightarrow> string" where
  "utf8_encode r =
     (if r < 0x80 then [char_of r]
      else if r < 0x800 then [char_of (0xC0 + r div 64), char_of (0x80 + r mod 64)]
      else if r < 0x10000 then
        [char_of (0xE0 + r div 4096), char_of (0x80 + (r div 64) mod 64), char_of (0x80 + r mod 64)]
      else
        [char_of (0xF0 + r div 262144), char_of (0x80 + (r div 4096) mod 64),
         char_of (0x80 + (r div 64) mod 64), char_of (0x80 + r mod 64)])"

definition is_surrogate :: "nat \<Rightarrow> bool" where
  "is_surrogate r = (0xD800 \<le> r \<and> r < 0xE000)"

text \<open>
  \<open>utf16.DecodeRune\<close>: the code point of a high and a low surrogate, \<open>None\<close> for every
  other pair (the library returns the replacement character then).
\<close>

definition utf16_decode :: "nat \<Rightarrow> nat option \<Rightarrow> nat option" where
  "utf16_decode r1 r2 =
     (case r2 of
        None \<Rightarrow> None
      | Some r2' \<Rightarrow>
          if 0xD800 \<le> r1 \<and> r1 < 0xDC00 \<and> 0xDC00 \<le> r2' \<and> r2' < 0xE000
          then Some ((r1 - 0xD800) * 1024 + (r2' - 0xDC00) + 0x10000)
          else None)"

definition replacement_char :: nat where
  "replacement_char = 0xFFFD"

definition unescape :: "char \<Rightarrow> char" where
  "unescape e =
     (if e = CHR ''b'' then CHR 0x08
      else if e = CHR ''f'' then CHR 0x0C
      else if e = CHR ''n'' then CHR 0x0A
      else if e = CHR ''r'' then CHR 0x0D
      else if e = CHR ''t'' then CHR 0x09
      else e)"

text \<open>
  \<open>unquote\<close>, on the inside of a string literal that the scanner has accepted: a
  backslash escape is replaced by what it stands for; \<open>\uXXXX\<close> gives the UTF-8 bytes of
  its code point, a surrogate pair gives one code point, and a surrogate with no partner
  gives the replacement character.
\<close>

function unquote :: "string \<Rightarrow> string" where
  "unquote [] = []"
| "unquote (c # cs) =
     (if c = CHR 0x5C then
        (case cs of
           [] \<Rightarrow> []
         | e # r \<Rightarrow>
             if e = CHR ''u'' then
               (case getu4 r of
                  None \<Rightarrow> []
                | Some rr \<Rightarrow>
                    if is_surrogate rr then
                      (case utf16_decode rr
                              (if take 2 (drop 4 r) = [CHR 0x5C, CHR ''u'']
                               then getu4 (drop 6 r) else None) of
                         Some dec \<Rightarrow> utf8_encode dec @ unquote (drop 10 r)
                       | None \<Rightarrow> utf8_encode replacement_char @ unquote (drop 4 r))
                    else utf8_encode rr @ unquote (drop 4 r))
             else unescape e # unquote r)
      else c # unquote cs)"
  by pat_completeness auto
termination
  by (relation "measure length") auto

subsection \<open>The scanner\<close>

text \<open>
  The scanner reads the text one byte at a time. It is a pushdown machine: a mode, a
  stack of the arrays and objects that are open, with what they hold so far, and the
  value just completed. A number, a literal and a string are collected in the mode.
\<close>

datatype number_state = NNeg | NZero | NInt | NDot | NFrac | NE | NESign | NExp

datatype mode =
  MValue
| MArrayFirst
| MObjectFirst
| MKey
| MColon string
| MAfter json
| MString bool string
| MStringEsc bool string
| MStringU bool string nat
| MLiteral string json
| MNumber number_state string

datatype frame =
  FArray "json list"
| FObject "(string \<times> json) list" string

record scanner =
  scMode :: mode
  scStack :: "frame list"

definition is_space :: "char \<Rightarrow> bool" where
  "is_space c = (c = CHR '' '' \<or> c = CHR 0x09 \<or> c = CHR 0x0A \<or> c = CHR 0x0D)"

definition is_digit :: "char \<Rightarrow> bool" where
  "is_digit c = (CHR ''0'' \<le> c \<and> c \<le> CHR ''9'')"

definition number_accepting :: "number_state \<Rightarrow> bool" where
  "number_accepting ns = (ns = NZero \<or> ns = NInt \<or> ns = NFrac \<or> ns = NExp)"

text \<open>The number grammar: \<open>-? (0 | [1-9][0-9]*) (. [0-9]+)? ([eE] [+-]? [0-9]+)?\<close>.\<close>

definition number_step :: "number_state \<Rightarrow> char \<Rightarrow> number_state option" where
  "number_step ns c =
     (case ns of
        NNeg \<Rightarrow> if c = CHR ''0'' then Some NZero else if is_digit c then Some NInt else None
      | NZero \<Rightarrow>
          if c = CHR ''.'' then Some NDot
          else if c = CHR ''e'' \<or> c = CHR ''E'' then Some NE else None
      | NInt \<Rightarrow>
          if is_digit c then Some NInt
          else if c = CHR ''.'' then Some NDot
          else if c = CHR ''e'' \<or> c = CHR ''E'' then Some NE else None
      | NDot \<Rightarrow> if is_digit c then Some NFrac else None
      | NFrac \<Rightarrow>
          if is_digit c then Some NFrac
          else if c = CHR ''e'' \<or> c = CHR ''E'' then Some NE else None
      | NE \<Rightarrow>
          if c = CHR ''+'' \<or> c = CHR ''-'' then Some NESign
          else if is_digit c then Some NExp else None
      | NESign \<Rightarrow> if is_digit c then Some NExp else None
      | NExp \<Rightarrow> if is_digit c then Some NExp else None)"

text \<open>At the start of a value.\<close>

definition begin_value :: "frame list \<Rightarrow> char \<Rightarrow> scanner option" where
  "begin_value st c =
     (if c = CHR ''{'' then Some \<lparr>scMode = MObjectFirst, scStack = st\<rparr>
      else if c = CHR ''['' then Some \<lparr>scMode = MArrayFirst, scStack = st\<rparr>
      else if c = CHR 0x22 then Some \<lparr>scMode = MString False [], scStack = st\<rparr>
      else if c = CHR ''t'' then Some \<lparr>scMode = MLiteral ''rue'' (JBool True), scStack = st\<rparr>
      else if c = CHR ''f'' then Some \<lparr>scMode = MLiteral ''alse'' (JBool False), scStack = st\<rparr>
      else if c = CHR ''n'' then Some \<lparr>scMode = MLiteral ''ull'' JNull, scStack = st\<rparr>
      else if c = CHR ''-'' then Some \<lparr>scMode = MNumber NNeg [c], scStack = st\<rparr>
      else if c = CHR ''0'' then Some \<lparr>scMode = MNumber NZero [c], scStack = st\<rparr>
      else if is_digit c then Some \<lparr>scMode = MNumber NInt [c], scStack = st\<rparr>
      else None)"

text \<open>After a complete value \<open>v\<close>: a comma or the closing bracket of what is open.\<close>

definition after_value :: "json \<Rightarrow> frame list \<Rightarrow> char \<Rightarrow> scanner option" where
  "after_value v st c =
     (if is_space c then Some \<lparr>scMode = MAfter v, scStack = st\<rparr>
      else
        (case st of
           [] \<Rightarrow> None
         | FArray xs # st' \<Rightarrow>
             if c = CHR '','' then Some \<lparr>scMode = MValue, scStack = FArray (xs @ [v]) # st'\<rparr>
             else if c = CHR '']'' then Some \<lparr>scMode = MAfter (JArray (xs @ [v])), scStack = st'\<rparr>
             else None
         | FObject ms k # st' \<Rightarrow>
             if c = CHR '','' then Some \<lparr>scMode = MKey, scStack = FObject (ms @ [(k, v)]) '''' # st'\<rparr>
             else if c = CHR ''}'' then
               Some \<lparr>scMode = MAfter (JObject (ms @ [(k, v)])), scStack = st'\<rparr>
             else None))"

text \<open>One byte.\<close>

definition scan_step :: "scanner \<Rightarrow> char \<Rightarrow> scanner option" where
  "scan_step sc c =
     (let st = scStack sc in
      case scMode sc of
        MValue \<Rightarrow> if is_space c then Some sc else begin_value st c
      | MArrayFirst \<Rightarrow>
          if is_space c then Some sc
          else if c = CHR '']'' then Some \<lparr>scMode = MAfter (JArray []), scStack = st\<rparr>
          else begin_value (FArray [] # st) c
      | MObjectFirst \<Rightarrow>
          if is_space c then Some sc
          else if c = CHR ''}'' then Some \<lparr>scMode = MAfter (JObject []), scStack = st\<rparr>
          else if c = CHR 0x22 then Some \<lparr>scMode = MString True [], scStack = FObject [] '''' # st\<rparr>
          else None
      | MKey \<Rightarrow>
          if is_space c then Some sc
          else if c = CHR 0x22 then Some \<lparr>scMode = MString True [], scStack = st\<rparr>
          else None
      | MColon k \<Rightarrow>
          if is_space c then Some sc
          else if c = CHR '':'' then
            (case st of
               FObject ms k' # st' \<Rightarrow> Some \<lparr>scMode = MValue, scStack = FObject ms k # st'\<rparr>
             | _ \<Rightarrow> None)
          else None
      | MAfter v \<Rightarrow> after_value v st c
      | MString is_key raw \<Rightarrow>
          if c = CHR 0x22 then
            (if is_key then Some \<lparr>scMode = MColon (unquote raw), scStack = st\<rparr>
             else Some \<lparr>scMode = MAfter (JString (unquote raw)), scStack = st\<rparr>)
          else if c = CHR 0x5C then Some \<lparr>scMode = MStringEsc is_key (raw @ [c]), scStack = st\<rparr>
          else if (of_char c :: nat) < 0x20 then None
          else Some \<lparr>scMode = MString is_key (raw @ [c]), scStack = st\<rparr>
      | MStringEsc is_key raw \<Rightarrow>
          if c \<in> set ''bfnrt/'' \<or> c = CHR 0x5C \<or> c = CHR 0x22 then
            Some \<lparr>scMode = MString is_key (raw @ [c]), scStack = st\<rparr>
          else if c = CHR ''u'' then Some \<lparr>scMode = MStringU is_key (raw @ [c]) 4, scStack = st\<rparr>
          else None
      | MStringU is_key raw n \<Rightarrow>
          if hex_value c = None then None
          else if n = 1 then Some \<lparr>scMode = MString is_key (raw @ [c]), scStack = st\<rparr>
          else Some \<lparr>scMode = MStringU is_key (raw @ [c]) (n - 1), scStack = st\<rparr>
      | MLiteral rest v \<Rightarrow>
          (case rest of
             [] \<Rightarrow> None
           | x # rest' \<Rightarrow>
               if c \<noteq> x then None
               else if rest' = [] then Some \<lparr>scMode = MAfter v, scStack = st\<rparr>
               else Some \<lparr>scMode = MLiteral rest' v, scStack = st\<rparr>)
      | MNumber ns lit \<Rightarrow>
          (case number_step ns c of
             Some ns' \<Rightarrow> Some \<lparr>scMode = MNumber ns' (lit @ [c]), scStack = st\<rparr>
           | None \<Rightarrow> if number_accepting ns then after_value (JNumber lit) st c else None))"

fun scan :: "scanner \<Rightarrow> string \<Rightarrow> scanner option" where
  "scan sc [] = Some sc"
| "scan sc (c # cs) = (case scan_step sc c of None \<Rightarrow> None | Some sc' \<Rightarrow> scan sc' cs)"

text \<open>
  At the end of the text there must be one complete value and nothing open; a text that
  ends anywhere else, the empty text among them, is a syntax error ("unexpected end of
  JSON input").
\<close>

definition scan_eof :: "scanner \<Rightarrow> json option" where
  "scan_eof sc =
     (if scStack sc \<noteq> [] then None
      else
        (case scMode sc of
           MAfter v \<Rightarrow> Some v
         | MNumber ns lit \<Rightarrow> if number_accepting ns then Some (JNumber lit) else None
         | _ \<Rightarrow> None))"

definition parse_json :: "string \<Rightarrow> json option" where
  "parse_json body =
     (case scan \<lparr>scMode = MValue, scStack = []\<rparr> body of
        None \<Rightarrow> None
      | Some sc \<Rightarrow> scan_eof sc)"

subsection \<open>Byte slices\<close>

text \<open>
  \<open>base64.StdEncoding\<close>: the alphabet \<open>A-Z a-z 0-9 + /\<close>, padded with \<open>=\<close> to groups of
  four. The decoder skips carriage returns and line feeds and refuses everything else
  that is not a complete padded encoding.
\<close>

definition sextet :: "char \<Rightarrow> nat option" where
  "sextet c =
     (let n = (of_char c :: nat) in
      if 65 \<le> n \<and> n \<le> 90 then Some (n - 65)
      else if 97 \<le> n \<and> n \<le> 122 then Some (n - 71)
      else if 48 \<le> n \<and> n \<le> 57 then Some (n + 4)
      else if c = CHR ''+'' then Some 62
      else if c = CHR ''/'' then Some 63
      else None)"

fun decode_quanta :: "string \<Rightarrow> string option" where
  "decode_quanta [] = Some []"
| "decode_quanta (a # b # c # d # rest) =
     (case (sextet a, sextet b) of
        (Some x, Some y) \<Rightarrow>
          if c = CHR ''='' then
            (if d = CHR ''='' \<and> rest = [] then Some [char_of (x * 4 + y div 16)] else None)
          else
            (case sextet c of
               None \<Rightarrow> None
             | Some z \<Rightarrow>
                 if d = CHR ''='' then
                   (if rest = []
                    then Some [char_of (x * 4 + y div 16), char_of ((y mod 16) * 16 + z div 4)]
                    else None)
                 else
                   (case sextet d of
                      None \<Rightarrow> None
                    | Some w \<Rightarrow>
                        (case decode_quanta rest of
                           None \<Rightarrow> None
                         | Some bs \<Rightarrow>
                             Some (char_of (x * 4 + y div 16) # char_of ((y mod 16) * 16 + z div 4)
                                   # char_of ((z mod 4) * 64 + w) # bs))))
      | _ \<Rightarrow> None)"
| "decode_quanta cs = None"

definition base64_decode :: "string \<Rightarrow> string option" where
  "base64_decode s = decode_quanta (filter (\<lambda>c. c \<noteq> CHR 0x0D \<and> c \<noteq> CHR 0x0A) s)"

subsection \<open>Storing the value\<close>

datatype json_error = SyntaxError | UnmarshalTypeError | CorruptInputError

text \<open>
  An element of a JSON array stored in a \<open>[]byte\<close>: \<open>null\<close> leaves the zero byte, a
  number must be an unsigned decimal below 256, and anything else has the wrong type.
\<close>

definition decode_uint8 :: "json \<Rightarrow> json_error + char" where
  "decode_uint8 v =
     (case v of
        JNull \<Rightarrow> Inr (CHR 0x00)
      | JNumber lit \<Rightarrow>
          if list_all is_digit lit \<and> lit \<noteq> []
             \<and> foldl (\<lambda>n c. n * 10 + (of_char c - 48)) (0::nat) lit < 256
          then Inr (char_of (foldl (\<lambda>n c. n * 10 + (of_char c - 48)) (0::nat) lit))
          else Inl UnmarshalTypeError
      | _ \<Rightarrow> Inl UnmarshalTypeError)"

fun decode_elements :: "json list \<Rightarrow> json_error + string" where
  "decode_elements [] = Inr []"
| "decode_elements (v # vs) =
     (case decode_uint8 v of
        Inl e \<Rightarrow> Inl e
      | Inr b \<Rightarrow> (case decode_elements vs of Inl e \<Rightarrow> Inl e | Inr bs \<Rightarrow> Inr (b # bs)))"

text \<open>
  A JSON value stored in a \<open>[]byte\<close>: a string is decoded from base64, \<open>null\<close> gives the
  nil slice, an array gives its elements, and anything else has the wrong type.
\<close>

definition decode_bytes :: "json \<Rightarrow> json_error + string" where
  "decode_bytes v =
     (case v of
        JString s \<Rightarrow> (case base64_decode s of None \<Rightarrow> Inl CorruptInputError | Some bs \<Rightarrow> Inr bs)
      | JNull \<Rightarrow> Inr []
      | JArray vs \<Rightarrow> decode_elements vs
      | _ \<Rightarrow> Inl UnmarshalTypeError)"

text \<open>
  The members of an object are stored in order, a later member replacing an earlier one
  with the same key. The decoder goes on after a member that cannot be stored and
  reports the first such error at the end.
\<close>

fun decode_members ::
  "(string \<times> json) list \<Rightarrow> (string \<rightharpoonup> string) \<Rightarrow> json_error + (string \<rightharpoonup> string)" where
  "decode_members [] data = Inr data"
| "decode_members ((k, v) # ms) data =
     (case decode_bytes v of
        Inl e \<Rightarrow> Inl e
      | Inr bs \<Rightarrow> decode_members ms (data(k \<mapsto> bs)))"

text \<open>
  \<open>json.Unmarshal(body, &data)\<close> for \<open>data\<close> of type \<open>map[string][]byte\<close>: the text is
  checked first; \<open>null\<close> sets the map to nil, which has no entries, an object is stored
  member by member, and any other value has the wrong type.
\<close>

definition Unmarshal :: "string \<Rightarrow> (string \<rightharpoonup> string) \<Rightarrow> json_error + (string \<rightharpoonup> string)" where
  "Unmarshal body data =
     (case parse_json body of
        None \<Rightarrow> Inl SyntaxError
      | Some JNull \<Rightarrow> Inr Map.empty
      | Some (JObject ms) \<Rightarrow> decode_members ms data
      | Some v \<Rightarrow> Inl UnmarshalTypeError)"

text \<open>
  \<open>DecodeOperationContext\<close>: \<open>data := make(map[string][]byte)\<close>, then \<open>Unmarshal\<close>; on an
  error the result is \<open>(nil, err)\<close>, otherwise \<open>(data, nil)\<close>.
\<close>

definition DecodeOperationContext :: "string \<Rightarrow> json_error + (string \<rightharpoonup> string)" where
  "DecodeOperationContext body =
     (case Unmarshal body Map.empty of
        Inl err \<Rightarrow> Inl err
      | Inr data \<Rightarrow> Inr data)"

subsection \<open>Writing a context\<close>

text \<open>
  \<open>base64.StdEncoding.EncodeToString\<close>: three bytes give four characters of the
  alphabet, and a last group of one or two bytes is padded with \<open>=\<close>.
\<close>

definition base64_char :: "nat \<Rightarrow> char" where
  "base64_char n =
     (if n < 26 then char_of (65 + n)
      else if n < 52 then char_of (71 + n)
      else if n < 62 then char_of (n - 4)
      else if n = 62 then CHR ''+''
      else CHR ''/'')"

fun encode_quanta :: "string \<Rightarrow> string" where
  "encode_quanta [] = []"
| "encode_quanta [a] =
     (let x = (of_char a :: nat)
      in [base64_char (x div 4), base64_char ((x mod 4) * 16), CHR ''='', CHR ''=''])"
| "encode_quanta [a, b] =
     (let x = (of_char a :: nat); y = (of_char b :: nat)
      in [base64_char (x div 4), base64_char ((x mod 4) * 16 + y div 16),
          base64_char ((y mod 16) * 4), CHR ''=''])"
| "encode_quanta (a # b # c # rest) =
     (let x = (of_char a :: nat); y = (of_char b :: nat); z = (of_char c :: nat)
      in base64_char (x div 4) # base64_char ((x mod 4) * 16 + y div 16)
         # base64_char ((y mod 16) * 4 + z div 64) # base64_char (z mod 64)
         # encode_quanta rest)"

definition base64_encode :: "string \<Rightarrow> string" where
  "base64_encode bs = encode_quanta bs"


fun marshal_members :: "(string \<times> string) list \<Rightarrow> string" where
  "marshal_members [] = []"
| "marshal_members [(k, bs)] =
     [CHR 0x22] @ k @ [CHR 0x22] @ '':'' @ [CHR 0x22] @ base64_encode bs @ [CHR 0x22]"
| "marshal_members ((k, bs) # kv # kvs) =
     [CHR 0x22] @ k @ [CHR 0x22] @ '':'' @ [CHR 0x22] @ base64_encode bs @ [CHR 0x22] @ '',''
       @ marshal_members (kv # kvs)"

definition marshal_context :: "(string \<times> string) list \<Rightarrow> string" where
  "marshal_context kvs = ''{'' @ marshal_members kvs @ ''}''"

section \<open>Example inputs\<close>

text \<open>Concrete records and clients on which the theorems below are exercised.\<close>

definition ex_key :: namespaced_name where
  "ex_key = \<lparr>nnNamespace = ''default'', nnName = ''abnormal1''\<rparr>"

definition ex_channel :: "abnormal channel" where
  "ex_channel = \<lparr>chanBuf = [], chanCap = 2, chanRecvq = 0, chanHanded = []\<rparr>"

definition ex_abnormal :: "string \<Rightarrow> string \<Rightarrow> pod_reference option \<Rightarrow> abnormal" where
  "ex_abnormal phase node ref =
     \<lparr>abnName = ''abnormal1'', abnNamespace = ''default'',
      abnSpec = \<lparr>abnSource = ''Custom'', abnNodeName = node, abnPodReference = ref\<rparr>,
      abnStatus = \<lparr>abnPhase = phase, abnConditions = [], abnStartTime = 0\<rparr>\<rparr>"

definition ex_pod_reference :: pod_reference where
  "ex_pod_reference = \<lparr>nnNamespace = ''default'', nnName = ''pod1'', refContainer = ''''\<rparr>"

definition ex_client :: "abnormal \<Rightarrow> cluster_client" where
  "ex_client a =
     \<lparr>getAbnormal = (\<lambda>k. if k = ex_key then Inr a else Inl (NotFound ''not found'')),
      getPod = (\<lambda>k. if k = \<lparr>nnNamespace = ''default'', nnName = ''pod1''\<rparr>
                      then Inr \<lparr>podName = ''pod1'', podNamespace = ''default'', podNodeName = ''node1''\<rparr>
                      else Inl (NotFound ''not found'')),
      updateAbnormal = (\<lambda>a. None)\<rparr>"

definition ex_reconciler :: "string \<Rightarrow> abnormal \<Rightarrow> reconciler" where
  "ex_reconciler m a =
     \<lparr>rClient = ex_client a, rMode = m, sourceManagerCh = ex_channel,
      informationManagerCh = ex_channel, diagnoserChainCh = ex_channel,
      recovererChainCh = ex_channel\<rparr>"

definition ex_alert :: "go_time \<Rightarrow> alert" where
  "ex_alert ends =
     \<lparr>alertLabels = [(''alertname'', ''HighCPU''), (''severity'', ''critical'')],
      alertStartsAt = 100, alertEndsAt = ends, alertFingerprint = 0x1a2b3c4d5e6f7081\<rparr>"

definition ex_env :: "alert list \<Rightarrow> handler_env" where
  "ex_env alerts =
     \<lparr>envUnmarshal = (\<lambda>body. Inr alerts), envClock = (\<lambda>n. 1000 + int n),
      envCreate = (\<lambda>a. None)\<rparr>"


definition ex_alertmanager :: alertmanager where
  "ex_alertmanager = \<lparr>repeatInterval = 60, firingAlertSet = Map.empty\<rparr>"

definition ex_post :: http_request where
  "ex_post = \<lparr>reqMethod = ''POST'', reqBody = Inr ''[...]''\<rparr>"

definition ex_map :: go_value where
  "ex_map = GoMapString ''map[string]int'' [(''b'', GoInt ''int'' 2), (''a'', GoInt ''int'' 1)]"

definition ex_map_reordered :: go_value where
  "ex_map_reordered = GoMapString ''map[string]int'' [(''a'', GoInt ''int'' 1), (''b'', GoInt ''int'' 2)]"

section \<open>Verified properties: node-affinity filter\<close>

lemma RetrieveTasksOnNode_loop_filter:
  "RetrieveTasksOnNode_loop tasks n acc = acc @ filter (\<lambda>t. taskNodeName (taskSpec t) = n) tasks"
  by (induction tasks arbitrary: acc) simp_all

text \<open>
  C6, as the code has it. \<open>RetrieveTasksOnNode\<close> returns exactly the tasks whose spec
  nodeName equals the given node name, in their original order, and
  \<open>IsTaskNodeNameMatched\<close> is true if and only if the task's spec nodeName equals the
  given node name. For a task whose nodeName is empty this means: matched if and only if
  the given node name is empty too, so the match is false for every non-empty node name.
\<close>

theorem RetrieveTasksOnNode_filter:
  "RetrieveTasksOnNode tasks n = filter (\<lambda>t. taskNodeName (taskSpec t) = n) tasks
   \<and> (IsTaskNodeNameMatched t n \<longleftrightarrow> taskNodeName (taskSpec t) = n)
   \<and> (IsTaskNodeNameMatched (t\<lparr>taskSpec := \<lparr>taskNodeName = ''''\<rparr>\<rparr>) n \<longleftrightarrow> n = '''')"
  by (auto simp: RetrieveTasksOnNode_def RetrieveTasksOnNode_loop_filter
      IsTaskNodeNameMatched_def)

text \<open>
  C6 as stated says that the match is false whenever the task's nodeName is empty. A task
  with an empty nodeName matches the empty node name.
\<close>

theorem IsTaskNodeNameMatched_empty_counterexample:
  "taskNodeName (taskSpec \<lparr>taskName = ''diagnosis1'', taskSpec = \<lparr>taskNodeName = ''''\<rparr>\<rparr>) = ''''
   \<and> IsTaskNodeNameMatched \<lparr>taskName = ''diagnosis1'', taskSpec = \<lparr>taskNodeName = ''''\<rparr>\<rparr> ''''"
  by (simp add: IsTaskNodeNameMatched_def)

section \<open>Verified properties: the sort comparator\<close>

lemma Less_at_length:
  "0 \<le> j \<Longrightarrow> j \<le> int (length al) \<Longrightarrow>
   Less al (int (length al)) j = Inl (IndexOutOfRange (int (length al)) (length al))"
  by (simp add: Less_def index_def)

lemma Less_negative:
  "i < 0 \<Longrightarrow> j \<le> int (length al) \<Longrightarrow> Less al i j = Inl (IndexOutOfRange i (length al))"
  by (simp add: Less_def index_def)

lemma Less_in_range:
  "0 \<le> i \<Longrightarrow> i < int (length al) \<Longrightarrow> 0 \<le> j \<Longrightarrow> j < int (length al) \<Longrightarrow>
   Less al i j = Inr (abnStartTime (abnStatus (al ! nat i)) < abnStartTime (abnStatus (al ! nat j)))"
  by (simp add: Less_def index_def)

text \<open>
  C9 asks that \<open>Less\<close> returns false, with no out-of-range access, whenever an index is
  not valid, in particular when \<open>i\<close> equals the length. The guard compares with \<open>>\<close>
  where \<open>\<ge>\<close> is needed: on a list of one element, \<open>Less 1 0\<close> passes the guard and
  indexes \<open>al[1]\<close>, which panics.
\<close>

theorem Less_index_equal_length_panics:
  "Less [\<lparr>abnName = ''a'', abnNamespace = ''default'',
           abnSpec = \<lparr>abnSource = ''Custom'', abnNodeName = ''node1'', abnPodReference = None\<rparr>,
           abnStatus = \<lparr>abnPhase = '''', abnConditions = [], abnStartTime = 5\<rparr>\<rparr>] 1 0
   = Inl (IndexOutOfRange 1 1)"
  by (simp add: Less_def index_def)

section \<open>Verified properties: bounded queues\<close>

lemma ready_cases_not_done:
  "ready_cases False ch = (if chan_can_send ch then [CaseSend] else [])"
  by (simp add: ready_cases_def)

lemma chan_send_buffered:
  "chanRecvq ch = 0 \<Longrightarrow> chanBuf (chan_send ch x) = chanBuf ch @ [x]"
  by (simp add: chan_send_def)

lemma chan_send_handed:
  "0 < chanRecvq ch \<Longrightarrow> chanHanded (chan_send ch x) = chanHanded ch @ [x]"
  by (simp add: chan_send_def)

text \<open>
  C3. With the context not cancelled, each of the queue functions, on an open channel,
  returns an error if and only if the channel cannot take the value at once (no receiver
  is waiting and the buffer is full); in that case the channel is left as it was.
  Otherwise the value is sent on the channel and the result is nil.
\<close>

theorem Queue_error_iff_blocked:
  "(fst (QueueDiagnosis False pick ch x) \<noteq> None \<longleftrightarrow> \<not> chan_can_send ch)
   \<and> QueueDiagnosis False pick ch x =
       (if chan_can_send ch then (None, chan_send ch x) else (Some ''channel is blocked'', ch))
   \<and> QueueTask False pick ch x =
       (if chan_can_send ch then (None, chan_send ch x) else (Some ''channel is blocked'', ch))
   \<and> QueueOperationSet False pick ch x =
       (if chan_can_send ch then (None, chan_send ch x) else (Some ''channel is blocked'', ch))
   \<and> QueueEvent False pick ch x =
       (if chan_can_send ch then (None, chan_send ch x) else (Some ''channel is blocked'', ch))
   \<and> QueueAbnormal False pick ach a =
       (if chan_can_send ach then (None, chan_send ach a) else (Some ''channel is blocked'', ach))"
  by (simp add: QueueDiagnosis_def QueueTask_def QueueOperationSet_def QueueEvent_def
      QueueAbnormal_def ready_cases_not_done)

lemma QueueDiagnosis_full_example:
  "QueueDiagnosis False 0 \<lparr>chanBuf = [1, 2], chanCap = 2, chanRecvq = 0, chanHanded = []\<rparr> (3::nat)
   = (Some ''channel is blocked'', \<lparr>chanBuf = [1, 2], chanCap = 2, chanRecvq = 0, chanHanded = []\<rparr>)"
  by (simp add: QueueDiagnosis_def ready_cases_def chan_can_send_def)

lemma QueueDiagnosis_room_example:
  "QueueDiagnosis False 0 \<lparr>chanBuf = [1], chanCap = 2, chanRecvq = 0, chanHanded = []\<rparr> (3::nat)
   = (None, \<lparr>chanBuf = [1, 3], chanCap = 2, chanRecvq = 0, chanHanded = []\<rparr>)"
  by (simp add: QueueDiagnosis_def ready_cases_def chan_can_send_def chan_send_def)

section \<open>Verified properties: the reconciler\<close>

text \<open>
  C1. In agent mode, a reconcile that fetches a record in phase Succeeded, Failed or
  Unknown makes no call but that fetch (so no update of the record or of its status),
  leaves all four channels as they were and returns nil.
\<close>

theorem Reconcile_agent_terminal_ignored:
  assumes "rMode r = ''agent''"
    and "getAbnormal (rClient r) req = Inr a"
    and "abnPhase (abnStatus a) = AbnormalSucceeded \<or> abnPhase (abnStatus a) = AbnormalFailed
         \<or> abnPhase (abnStatus a) = AbnormalUnknown"
  shows "Reconcile r req = \<lparr>rrCalls = [GetAbnormalCall req], rrReconciler = r, rrError = None\<rparr>"
  using assms
  by (auto simp: Reconcile_def AbnormalSucceeded_def AbnormalFailed_def AbnormalUnknown_def
      InformationCollecting_def AbnormalDiagnosing_def AbnormalRecovering_def)

theorem Reconcile_agent_terminal_ignored_witness:
  "Reconcile (ex_reconciler ''agent'' (ex_abnormal ''Failed'' ''node1'' None)) ex_key
   = \<lparr>rrCalls = [GetAbnormalCall ex_key],
      rrReconciler = ex_reconciler ''agent'' (ex_abnormal ''Failed'' ''node1'' None),
      rrError = None\<rparr>"
  using Reconcile_agent_terminal_ignored
    [of "ex_reconciler ''agent'' (ex_abnormal ''Failed'' ''node1'' None)" ex_key
        "ex_abnormal ''Failed'' ''node1'' None"]
  by (simp add: ex_reconciler_def ex_client_def ex_abnormal_def AbnormalFailed_def)

text \<open>
  C2. In master mode, for a fetched record with no phase and an empty nodeName: when the
  podReference is absent, the reconcile makes no further call, leaves the channels as
  they were and returns nil; when it is present, the reconcile GETs the pod of that
  namespace and name, and when the GET answers with a pod, the next and last call is an
  update of the record with nodeName set to the pod's spec.nodeName.
\<close>

theorem Reconcile_master_node_binding:
  assumes "rMode r = ''master''"
    and "getAbnormal (rClient r) req = Inr a"
    and "abnPhase (abnStatus a) = ''''"
    and "abnNodeName (abnSpec a) = ''''"
  shows "(abnPodReference (abnSpec a) = None \<longrightarrow>
            Reconcile r req = \<lparr>rrCalls = [GetAbnormalCall req], rrReconciler = r, rrError = None\<rparr>)
       \<and> (\<forall>ref. abnPodReference (abnSpec a) = Some ref \<longrightarrow>
            take 2 (rrCalls (Reconcile r req))
              = [GetAbnormalCall req, GetPodCall \<lparr>nnNamespace = nnNamespace ref, nnName = nnName ref\<rparr>]
            \<and> (\<forall>p. getPod (rClient r) \<lparr>nnNamespace = nnNamespace ref, nnName = nnName ref\<rparr> = Inr p \<longrightarrow>
                  rrCalls (Reconcile r req)
                    = [GetAbnormalCall req,
                       GetPodCall \<lparr>nnNamespace = nnNamespace ref, nnName = nnName ref\<rparr>,
                       UpdateAbnormalCall (a\<lparr>abnSpec := (abnSpec a)\<lparr>abnNodeName := podNodeName p\<rparr>\<rparr>)]))"
  using assms
  by (auto simp: Reconcile_def Let_def split: sum.splits option.splits)

theorem Reconcile_master_node_binding_witness:
  "rrCalls (Reconcile (ex_reconciler ''master'' (ex_abnormal '''' '''' (Some ex_pod_reference))) ex_key)
   = [GetAbnormalCall ex_key,
      GetPodCall \<lparr>nnNamespace = ''default'', nnName = ''pod1''\<rparr>,
      UpdateAbnormalCall (ex_abnormal '''' ''node1'' (Some ex_pod_reference))]"
  using Reconcile_master_node_binding
    [of "ex_reconciler ''master'' (ex_abnormal '''' '''' (Some ex_pod_reference))" ex_key
        "ex_abnormal '''' '''' (Some ex_pod_reference)"]
  by (simp add: ex_reconciler_def ex_client_def ex_abnormal_def ex_pod_reference_def)

section \<open>Verified properties: the feature gate\<close>

lemma SetFromMap_loop_error_iff:
  "(\<exists>e. SetFromMap_loop kn fm en = Inl e) \<longleftrightarrow> (\<exists>kv \<in> set fm. gate_refused kn kv)"
proof (induction kn fm en rule: SetFromMap_loop.induct)
  case (1 knownMap enabledMap)
  show ?case by simp
next
  case (2 knownMap key v featureMap enabledMap)
  show ?case
  proof (cases "fmlookup knownMap key")
    case None
    then show ?thesis by (simp add: gate_refused_def)
  next
    case (Some spec)
    show ?thesis
    proof (cases "fsLockToDefault spec \<and> fsDefault spec \<noteq> v")
      case True
      with Some show ?thesis by (simp add: gate_refused_def)
    next
      case False
      with Some have "\<not> gate_refused knownMap (key, v)"
        by (simp add: gate_refused_def)
      moreover have "SetFromMap_loop knownMap ((key, v) # featureMap) enabledMap
                     = SetFromMap_loop knownMap featureMap (fmupd key v enabledMap)"
        using Some False by auto
      ultimately show ?thesis
        using "2.IH"[OF Some False] by simp
    qed
  qed
qed

lemma SetFromMap_loop_lookup:
  "SetFromMap_loop kn fm en = Inr en' \<Longrightarrow> distinct (map fst fm) \<Longrightarrow>
   fmlookup en' k = (case map_of fm k of Some v \<Rightarrow> Some v | None \<Rightarrow> fmlookup en k)"
proof (induction kn fm en rule: SetFromMap_loop.induct)
  case (1 knownMap enabledMap)
  then show ?case by simp
next
  case (2 knownMap key v featureMap enabledMap)
  from "2.prems" obtain spec where spec: "fmlookup knownMap key = Some spec"
    and ok: "\<not> (fsLockToDefault spec \<and> fsDefault spec \<noteq> v)"
    and rest: "SetFromMap_loop knownMap featureMap (fmupd key v enabledMap) = Inr en'"
    by (auto split: option.splits if_splits)
  have d: "distinct (map fst featureMap)" and notin: "key \<notin> fst ` set featureMap"
    using "2.prems"(2) by auto
  have "fmlookup en' k =
        (case map_of featureMap k of Some v \<Rightarrow> Some v | None \<Rightarrow> fmlookup (fmupd key v enabledMap) k)"
    using "2.IH"[OF spec ok rest d] .
  moreover have "map_of featureMap key = None"
    using notin by (simp add: map_of_eq_None_iff)
  ultimately show ?case by (auto split: option.splits)
qed

text \<open>
  C8. The feature map is given by its entries, with distinct keys. If some entry names
  a gate that is not known, or sets a locked gate to a value other than its default,
  \<open>SetFromMap\<close> returns an error and the gate is the one it was, so \<open>Enabled\<close> and
  \<open>KnownFeatures\<close> answer as before. Otherwise it returns nil, the known features are
  the same, and the enabled map gives every listed gate its listed value and every
  other key the value it had.
\<close>

theorem SetFromMap_atomic:
  assumes "distinct (map fst fm)"
  shows "((\<exists>kv \<in> set fm. gate_refused (known kf) kv) \<longrightarrow>
            fst (SetFromMap kf fm) \<noteq> None \<and> snd (SetFromMap kf fm) = kf
            \<and> (\<forall>key. Enabled (snd (SetFromMap kf fm)) key = Enabled kf key)
            \<and> KnownFeatures (snd (SetFromMap kf fm)) = KnownFeatures kf)
       \<and> (\<not> (\<exists>kv \<in> set fm. gate_refused (known kf) kv) \<longrightarrow>
            fst (SetFromMap kf fm) = None
            \<and> known (snd (SetFromMap kf fm)) = known kf
            \<and> (\<forall>key. fmlookup (enabled (snd (SetFromMap kf fm))) key
                  = (case map_of fm key of Some v \<Rightarrow> Some v | None \<Rightarrow> fmlookup (enabled kf) key))
            \<and> (\<forall>kv \<in> set fm. Enabled (snd (SetFromMap kf fm)) (fst kv) = snd kv))"
proof (cases "\<exists>kv \<in> set fm. gate_refused (known kf) kv")
  case True
  then obtain e where "SetFromMap_loop (known kf) fm (enabled kf) = Inl e"
    using SetFromMap_loop_error_iff by blast
  then have "SetFromMap kf fm = (Some e, kf)"
    by (simp add: SetFromMap_def)
  with True show ?thesis by simp
next
  case False
  then have "\<not> (\<exists>e. SetFromMap_loop (known kf) fm (enabled kf) = Inl e)"
    using SetFromMap_loop_error_iff by blast
  then obtain en' where en': "SetFromMap_loop (known kf) fm (enabled kf) = Inr en'"
    by (cases "SetFromMap_loop (known kf) fm (enabled kf)") auto
  then have res: "SetFromMap kf fm = (None, kf\<lparr>enabled := en'\<rparr>)"
    by (simp add: SetFromMap_def)
  have look: "\<And>key. fmlookup en' key
      = (case map_of fm key of Some v \<Rightarrow> Some v | None \<Rightarrow> fmlookup (enabled kf) key)"
    using SetFromMap_loop_lookup[OF en' assms] .
  have "\<And>kv. kv \<in> set fm \<Longrightarrow> Enabled (kf\<lparr>enabled := en'\<rparr>) (fst kv) = snd kv"
  proof -
    fix kv assume "kv \<in> set fm"
    then have "(fst kv, snd kv) \<in> set fm" by simp
    then have "map_of fm (fst kv) = Some (snd kv)"
      by (simp add: map_of_eq_Some_iff[OF assms])
    then show "Enabled (kf\<lparr>enabled := en'\<rparr>) (fst kv) = snd kv"
      by (simp add: Enabled_def look)
  qed
  with False res look show ?thesis by simp
qed

lemma known_Eventer: "fmlookup (known NewFeatureGate) ''Eventer'' = Some (alpha_gate False)"
  by code_simp

lemma known_NoSuchGate: "fmlookup (known NewFeatureGate) ''NoSuchGate'' = None"
  by code_simp

theorem SetFromMap_atomic_witness:
  "fst (SetFromMap NewFeatureGate [(''Eventer'', True)]) = None
   \<and> Enabled (snd (SetFromMap NewFeatureGate [(''Eventer'', True)])) ''Eventer''
   \<and> known (snd (SetFromMap NewFeatureGate [(''Eventer'', True)])) = known NewFeatureGate
   \<and> fst (SetFromMap NewFeatureGate [(''Eventer'', True), (''NoSuchGate'', True)]) \<noteq> None
   \<and> snd (SetFromMap NewFeatureGate [(''Eventer'', True), (''NoSuchGate'', True)]) = NewFeatureGate"
proof -
  have d1: "distinct (map fst [(''Eventer'', True)])"
    by simp
  have ok: "\<not> (\<exists>kv \<in> set [(''Eventer'', True)]. gate_refused (known NewFeatureGate) kv)"
    by (simp add: gate_refused_def known_Eventer alpha_gate_def)
  have d2: "distinct (map fst [(''Eventer'', True), (''NoSuchGate'', True)])"
    by simp
  have bad: "\<exists>kv \<in> set [(''Eventer'', True), (''NoSuchGate'', True)].
               gate_refused (known NewFeatureGate) kv"
    by (simp add: gate_refused_def known_NoSuchGate)
  note accepted = SetFromMap_atomic[OF d1, of NewFeatureGate, THEN conjunct2, THEN mp, OF ok]
  note refused = SetFromMap_atomic[OF d2, of NewFeatureGate, THEN conjunct1, THEN mp, OF bad]
  have "Enabled (snd (SetFromMap NewFeatureGate [(''Eventer'', True)])) ''Eventer''"
    using accepted[THEN conjunct2, THEN conjunct2, THEN conjunct2] by simp
  then show ?thesis
    by (intro conjI accepted[THEN conjunct1] accepted[THEN conjunct2, THEN conjunct1]
        refused[THEN conjunct1] refused[THEN conjunct2, THEN conjunct1])
qed

section \<open>Verified properties: the alert handler\<close>


lemma Handler_body_resolved:
  "ResolvedAt a (envClock env (hrTick run)) \<Longrightarrow>
   Handler_body i env a run = (None, run\<lparr>hrTick := hrTick run + 1\<rparr>)"
  by (simp add: Handler_body_def)

lemma Handler_body_not_accepted:
  "\<not> alert_accepted i env a run \<Longrightarrow>
   Handler_body i env a run
     = (None, run\<lparr>hrTick := hrTick run + (if ResolvedAt a (envClock env (hrTick run)) then 1 else 2)\<rparr>)"
  by (auto simp: alert_accepted_def Handler_body_def Let_def split: option.splits)

lemma Handler_body_created:
  "hrCreated (snd (Handler_body i env a run))
     = hrCreated run @ (if alert_accepted i env a run then [alert_abnormal a] else [])"
  by (auto simp: alert_accepted_def Handler_body_def Let_def split: option.splits)

lemma Handler_body_firing:
  "hrFiring (snd (Handler_body i env a run))
     = (if alert_accepted i env a run \<and> fst (Handler_body i env a run) = None
        then (hrFiring run)(alertFingerprint a \<mapsto> envClock env (hrTick run + 1))
        else hrFiring run)"
  by (auto simp: alert_accepted_def Handler_body_def Let_def split: option.splits)

lemma Handler_body_error:
  "fst (Handler_body i env a run) = Some e \<longleftrightarrow>
     alert_accepted i env a run \<and> envCreate env (alert_abnormal a) = Some e \<and> \<not> IsAlreadyExists e"
  by (auto simp: alert_accepted_def Handler_body_def Let_def split: option.splits)

lemma Handler_loop_Cons:
  "Handler_loop i env (a # alerts) run =
     (if fst (Handler_body i env a run) = None
      then Handler_loop i env alerts (snd (Handler_body i env a run))
      else Handler_body i env a run)"
  by (cases "Handler_body i env a run") (auto split: option.splits)

lemma Handler_loop_created_prefix:
  "\<exists>new. hrCreated (snd (Handler_loop i env alerts run)) = hrCreated run @ new
     \<and> (\<forall>ab \<in> set new. \<exists>a \<in> set alerts. ab = alert_abnormal a
            \<and> (\<exists>n. \<not> ResolvedAt a (envClock env n)))"
proof (induction alerts arbitrary: run)
  case Nil
  show ?case by simp
next
  case (Cons a alerts)
  let ?run' = "snd (Handler_body i env a run)"
  let ?own = "if alert_accepted i env a run then [alert_abnormal a] else []"
  have own: "\<forall>ab \<in> set ?own. \<exists>a' \<in> set (a # alerts). ab = alert_abnormal a'
                \<and> (\<exists>n. \<not> ResolvedAt a' (envClock env n))"
    by (auto simp: alert_accepted_def)
  show ?case
  proof (cases "fst (Handler_body i env a run) = None")
    case True
    from Cons.IH[of ?run'] obtain new where
      new: "hrCreated (snd (Handler_loop i env alerts ?run')) = hrCreated ?run' @ new"
        "\<forall>ab \<in> set new. \<exists>a \<in> set alerts. ab = alert_abnormal a
            \<and> (\<exists>n. \<not> ResolvedAt a (envClock env n))"
      by blast
    have "hrCreated (snd (Handler_loop i env (a # alerts) run)) = hrCreated run @ (?own @ new)"
      using True new(1) by (simp add: Handler_loop_Cons Handler_body_created del: Handler_loop.simps)
    moreover have "\<forall>ab \<in> set (?own @ new). \<exists>a' \<in> set (a # alerts). ab = alert_abnormal a'
                \<and> (\<exists>n. \<not> ResolvedAt a' (envClock env n))"
      using own new(2) by auto
    ultimately show ?thesis by blast
  next
    case False
    then have "hrCreated (snd (Handler_loop i env (a # alerts) run)) = hrCreated run @ ?own"
      by (simp only: Handler_loop_Cons Handler_body_created if_False)
    with own show ?thesis by blast
  qed
qed

lemma Handler_loop_accepted:
  assumes "alert_accepted i env a run"
  shows "\<exists>rest. hrCreated (snd (Handler_loop i env (a # alerts) run))
                 = hrCreated run @ alert_abnormal a # rest"
proof (cases "fst (Handler_body i env a run) = None")
  case True
  from Handler_loop_created_prefix[of i env alerts "snd (Handler_body i env a run)"]
  obtain new where "hrCreated (snd (Handler_loop i env alerts (snd (Handler_body i env a run))))
      = hrCreated (snd (Handler_body i env a run)) @ new"
    by blast
  with True assms show ?thesis
    by (simp add: Handler_loop_Cons Handler_body_created del: Handler_loop.simps)
next
  case False
  then have "Handler_loop i env (a # alerts) run = Handler_body i env a run"
    by (simp only: Handler_loop_Cons if_False)
  with assms show ?thesis
    by (simp add: Handler_body_created del: Handler_loop.simps)
qed

lemma Handler_loop_all_resolved:
  "\<forall>a \<in> set alerts. \<forall>n. ResolvedAt a (envClock env n) \<Longrightarrow>
   Handler_loop i env alerts run = (None, run\<lparr>hrTick := hrTick run + length alerts\<rparr>)"
  by (induction alerts arbitrary: run) (simp_all add: Handler_body_resolved)






text \<open>
  C10. A resolved alert is skipped: the loop body creates nothing for it and leaves the
  firing set as it was. The body calls \<open>Create\<close> for an alert exactly when the alert is
  firing and its fingerprint has no firing time within the repeat interval, and it
  changes the firing set only then. Over the whole loop, every record for which
  \<open>Create\<close> is called belongs to an alert of the request that was not resolved when it
  was examined; a POST whose alerts are all resolved creates nothing, leaves the firing
  set as it was and answers 200.
\<close>

theorem Handler_skips_resolved:
  "(ResolvedAt a (envClock env (hrTick run)) \<longrightarrow>
      Handler_body i env a run = (None, run\<lparr>hrTick := hrTick run + 1\<rparr>))
   \<and> hrCreated (snd (Handler_body i env a run))
        = hrCreated run @ (if alert_accepted i env a run then [alert_abnormal a] else [])
   \<and> (\<not> alert_accepted i env a run \<longrightarrow> hrFiring (snd (Handler_body i env a run)) = hrFiring run)
   \<and> (\<exists>new. hrCreated (snd (Handler_loop i env alerts run)) = hrCreated run @ new
         \<and> (\<forall>ab \<in> set new. \<exists>a \<in> set alerts. ab = alert_abnormal a
                \<and> (\<exists>n. \<not> ResolvedAt a (envClock env n))))
   \<and> (reqMethod r = ''POST'' \<and> reqBody r = Inr body \<and> envUnmarshal env body = Inr alerts
        \<and> (\<forall>a \<in> set alerts. \<forall>n. ResolvedAt a (envClock env n)) \<longrightarrow>
        Handler am env r = (\<lparr>respStatus = 200, respBody = ''OK''\<rparr>, am, []))"
proof -
  have "reqMethod r = ''POST'' \<and> reqBody r = Inr body \<and> envUnmarshal env body = Inr alerts
        \<and> (\<forall>a \<in> set alerts. \<forall>n. ResolvedAt a (envClock env n)) \<longrightarrow>
        Handler am env r = (\<lparr>respStatus = 200, respBody = ''OK''\<rparr>, am, [])"
    by (simp add: Handler_def Handler_loop_all_resolved)
  then show ?thesis
    using Handler_body_resolved[of a env run i] Handler_body_created[of i env a run]
      Handler_body_firing[of i env a run] Handler_loop_created_prefix[of i env alerts run]
    by (intro conjI) simp_all
qed

lemma ex_all_resolved:
  "\<forall>a \<in> set [ex_alert 500]. \<forall>n. ResolvedAt a (envClock (ex_env [ex_alert 500]) n)"
  by (simp add: ex_env_def ex_alert_def ResolvedAt_def)

theorem Handler_skips_resolved_witness:
  "Handler ex_alertmanager (ex_env [ex_alert 500]) ex_post
     = (\<lparr>respStatus = 200, respBody = ''OK''\<rparr>, ex_alertmanager, [])"
proof -
  have "reqMethod ex_post = ''POST'' \<and> reqBody ex_post = Inr ''[...]''
        \<and> envUnmarshal (ex_env [ex_alert 500]) ''[...]'' = Inr [ex_alert 500]
        \<and> (\<forall>a \<in> set [ex_alert 500]. \<forall>n. ResolvedAt a (envClock (ex_env [ex_alert 500]) n))"
    using ex_all_resolved by (simp add: ex_post_def ex_env_def)
  with Handler_skips_resolved[of _ "ex_env [ex_alert 500]" _ _ "[ex_alert 500]" ex_post "''[...]''"
      ex_alertmanager, THEN conjunct2, THEN conjunct2, THEN conjunct2, THEN conjunct2]
  show ?thesis
    by (rule mp)
qed

section \<open>Verified properties: ComputeHash\<close>

lemma sorted_keys_unique:
  fixes kvs :: "('k::linorder \<times> 'v) list"
  assumes "distinct (map fst kvs)" "distinct (map fst kvs')" "fst ` set kvs = fst ` set kvs'"
  shows "map fst (sort_key fst kvs) = map fst (sort_key fst kvs')"
proof (rule sorted_distinct_set_unique)
  show "sorted (map fst (sort_key fst kvs))" by (rule sorted_sort_key)
  show "sorted (map fst (sort_key fst kvs'))" by (rule sorted_sort_key)
  have m: "mset (map fst (sort_key fst kvs)) = mset (map fst kvs)" by simp
  show "distinct (map fst (sort_key fst kvs))"
    using mset_eq_imp_distinct_iff[OF m] assms(1) by blast
  have m': "mset (map fst (sort_key fst kvs')) = mset (map fst kvs')" by simp
  show "distinct (map fst (sort_key fst kvs'))"
    using mset_eq_imp_distinct_iff[OF m'] assms(2) by blast
  show "set (map fst (sort_key fst kvs)) = set (map fst (sort_key fst kvs'))"
    using assms(3) by simp
qed

lemma sorted_entries_map_eq:
  fixes kvs :: "('k::linorder \<times> 'v) list"
  assumes d: "distinct (map fst kvs)" and d': "distinct (map fst kvs')"
    and keys: "fst ` set kvs = fst ` set kvs'"
    and vals: "\<And>k v v'. (k, v) \<in> set kvs \<Longrightarrow> (k, v') \<in> set kvs' \<Longrightarrow> g k v = g k v'"
  shows "map (\<lambda>(k, v). g k v) (sort_key fst kvs) = map (\<lambda>(k, v). g k v) (sort_key fst kvs')"
proof (rule nth_equalityI)
  have len: "length (sort_key fst kvs) = length (sort_key fst kvs')"
    using sorted_keys_unique[OF d d' keys] by (metis length_map)
  then show "length (map (\<lambda>(k, v). g k v) (sort_key fst kvs))
           = length (map (\<lambda>(k, v). g k v) (sort_key fst kvs'))"
    by simp
  fix i assume "i < length (map (\<lambda>(k, v). g k v) (sort_key fst kvs))"
  then have i: "i < length (sort_key fst kvs)" by simp
  with len have i': "i < length (sort_key fst kvs')" by simp
  obtain k v where kv: "sort_key fst kvs ! i = (k, v)" by (cases "sort_key fst kvs ! i")
  obtain k' v' where kv': "sort_key fst kvs' ! i = (k', v')" by (cases "sort_key fst kvs' ! i")
  have "map fst (sort_key fst kvs) ! i = map fst (sort_key fst kvs') ! i"
    using sorted_keys_unique[OF d d' keys] by simp
  with i i' kv kv' have "k = k'" by simp
  have "(k, v) \<in> set (sort_key fst kvs)" using i kv by (metis nth_mem)
  then have in1: "(k, v) \<in> set kvs" by simp
  have "(k', v') \<in> set (sort_key fst kvs')" using i' kv' by (metis nth_mem)
  then have in2: "(k, v') \<in> set kvs'" using \<open>k = k'\<close> by simp
  show "map (\<lambda>(k, v). g k v) (sort_key fst kvs) ! i = map (\<lambda>(k, v). g k v) (sort_key fst kvs') ! i"
    using i i' kv kv' \<open>k = k'\<close> vals[OF in1 in2] by simp
qed

lemma same_value_format: "same_value a b \<Longrightarrow> spew_format ign a = spew_format ign b"
proof (induction arbitrary: ign rule: same_value.induct)
  case (same_slice xs ys t)
  then have "map (spew_format True) xs = map (spew_format True) ys"
    by (induction xs ys rule: list_all2_induct) auto
  then show ?case by simp
next
  case (same_struct fs gs t)
  from same_struct(1,2)
  have "map (\<lambda>(n, v). n @ '':'' @ spew_format False v) fs
      = map (\<lambda>(n, v). n @ '':'' @ spew_format False v) gs"
  proof (induction fs arbitrary: gs)
    case Nil
    then show ?case by simp
  next
    case (Cons f fs)
    then obtain g gs' where gs: "gs = g # gs'" by (cases gs) auto
    with Cons.prems have "fst f = fst g" "spew_format False (snd f) = spew_format False (snd g)"
      "map fst fs = map fst gs'"
      "list_all2 (\<lambda>x1 x2. same_value x1 x2 \<and> (\<forall>x. spew_format x x1 = spew_format x x2))
         (map snd fs) (map snd gs')"
      by auto
    with Cons.IH[of gs'] gs show ?case
      by (cases f; cases g) simp
  qed
  then show ?case by simp
next
  case (same_map_int kvs kvs' t)
  have "map (\<lambda>(k, v). FormatInt k @ '':'' @ spew_format True v) (sort_key fst kvs)
      = map (\<lambda>(k, v). FormatInt k @ '':'' @ spew_format True v) (sort_key fst kvs')"
    using same_map_int by (intro sorted_entries_map_eq) auto
  then show ?case by simp
next
  case (same_map_string kvs kvs' t)
  have "map (\<lambda>(k, v). k @ '':'' @ spew_format True v) (sort_key fst kvs)
      = map (\<lambda>(k, v). k @ '':'' @ spew_format True v) (sort_key fst kvs')"
    using same_map_string by (intro sorted_entries_map_eq) auto
  then show ?case by simp
qed simp_all

lemma permuted_entries_format:
  fixes kvs :: "('k::linorder \<times> go_value) list"
  assumes d: "distinct (map fst kvs)" and p: "mset kvs' = mset kvs"
  shows "map (\<lambda>(k, v). g k v) (sort_key fst kvs') = map (\<lambda>(k, v). g k v) (sort_key fst kvs)"
proof (rule sorted_entries_map_eq)
  have "mset (map fst kvs') = mset (map fst kvs)"
    using p by (metis mset_map)
  from mset_eq_imp_distinct_iff[OF this] d show d': "distinct (map fst kvs')"
    by blast
  show "distinct (map fst kvs)" by (rule d)
  have s: "set kvs' = set kvs"
    using p by (rule mset_eq_setD)
  then show "fst ` set kvs' = fst ` set kvs" by simp
  fix k v v' assume "(k, v) \<in> set kvs'" "(k, v') \<in> set kvs"
  with s d have "v = v'"
    by (metis eq_key_imp_eq_value)
  then show "g k v = g k v'" by simp
qed

text \<open>
  C5. \<open>ComputeHash\<close> depends on the template only: two templates that are the same Go
  value hash to the same string, and in particular a map hashes to the same string
  whatever the order of its entries, because the printer sorts the keys before the bytes
  reach the hasher.
\<close>

theorem ComputeHash_same_value:
  "(same_value a b \<longrightarrow> ComputeHash a = ComputeHash b)
   \<and> (distinct (map fst skvs) \<and> mset skvs' = mset skvs \<longrightarrow>
        ComputeHash (GoMapString t skvs') = ComputeHash (GoMapString t skvs))
   \<and> (distinct (map fst ikvs) \<and> mset ikvs' = mset ikvs \<longrightarrow>
        ComputeHash (GoMapInt t ikvs') = ComputeHash (GoMapInt t ikvs))"
proof (intro conjI impI)
  assume "same_value a b"
  then show "ComputeHash a = ComputeHash b"
    by (simp add: ComputeHash_def same_value_format)
next
  assume "distinct (map fst skvs) \<and> mset skvs' = mset skvs"
  then have "map (\<lambda>(k, v). k @ '':'' @ spew_format True v) (sort_key fst skvs')
           = map (\<lambda>(k, v). k @ '':'' @ spew_format True v) (sort_key fst skvs)"
    by (intro permuted_entries_format) simp_all
  then show "ComputeHash (GoMapString t skvs') = ComputeHash (GoMapString t skvs)"
    by (simp add: ComputeHash_def)
next
  assume "distinct (map fst ikvs) \<and> mset ikvs' = mset ikvs"
  then have "map (\<lambda>(k, v). FormatInt k @ '':'' @ spew_format True v) (sort_key fst ikvs')
           = map (\<lambda>(k, v). FormatInt k @ '':'' @ spew_format True v) (sort_key fst ikvs)"
    by (intro permuted_entries_format) simp_all
  then show "ComputeHash (GoMapInt t ikvs') = ComputeHash (GoMapInt t ikvs)"
    by (simp add: ComputeHash_def)
qed

lemma ex_map_same_value: "same_value ex_map ex_map_reordered"
  unfolding ex_map_def ex_map_reordered_def
  by (rule same_map_string) (auto intro: same_value.intros)

lemma ex_sorted:
  "sort_key fst [(''a'', GoInt ''int'' 1), (''b'', GoInt ''int'' 2)]
     = [(''a'', GoInt ''int'' 1), (''b'', GoInt ''int'' 2)]"
  by code_simp

lemma ex_digits: "FormatInt 1 = ''1''" "FormatInt 2 = ''2''"
  by (simp_all add: FormatInt_def digit_char_def)

lemma spew_format_ex_map: "spew_format False ex_map_reordered = ''(map[string]int)map[a:1 b:2]''"
  unfolding ex_map_reordered_def spew_format.simps ex_sorted
  by (simp add: ex_digits)

lemma fnv32a_ex_map: "fnv32a_write offset32 ''(map[string]int)map[a:1 b:2]'' = 0x60609c64"
  by code_simp

lemma ex_unat: "unat (0x60609c64 :: 32 word) = 1616944228"
  by simp

lemma ex_decimal: "FormatUint 1616944228 = ''1616944228''"
  by (simp add: digit_char_def)

lemma ex_safe: "SafeEncodeString ''1616944228'' = ''5b5bf8866d''"
  by code_simp

lemma ComputeHash_ex_map: "ComputeHash ex_map_reordered = ''5b5bf8866d''"
  unfolding ComputeHash_def spew_format_ex_map fnv32a_ex_map ex_unat ex_decimal
  by (rule ex_safe)

theorem ComputeHash_same_value_witness:
  "ComputeHash ex_map = ComputeHash ex_map_reordered
   \<and> ComputeHash ex_map_reordered = ''5b5bf8866d''"
proof -
  from ComputeHash_same_value[of ex_map ex_map_reordered, THEN conjunct1] ex_map_same_value
  have "ComputeHash ex_map = ComputeHash ex_map_reordered"
    by (rule mp)
  with ComputeHash_ex_map show ?thesis
    by (intro conjI)
qed

section \<open>Verified properties: DecodeOperationContext\<close>






























subsection \<open>The decoder on other bodies\<close>

text \<open>
  What the model answers for \<open>null\<close>, for values of the wrong type, for corrupt base64
  and for malformed text.
\<close>

lemmas scan_eval = parse_json_def scan_eof_def scan_step_def begin_value_def after_value_def
  is_space_def number_step_def number_accepting_def is_digit_def less_eq_char_def

lemma DecodeOperationContext_null: \<open>DecodeOperationContext ''null'' = Inr Map.empty\<close>
  by (simp add: DecodeOperationContext_def Unmarshal_def scan_eval)

lemma DecodeOperationContext_number_value:
  \<open>DecodeOperationContext ''{"a":1}'' = Inl UnmarshalTypeError\<close>
  by (simp add: DecodeOperationContext_def Unmarshal_def decode_bytes_def scan_eval)

lemma base64_decode_bad: \<open>base64_decode ''@@@@'' = None\<close>
  by code_simp

lemma DecodeOperationContext_bad_base64:
  \<open>DecodeOperationContext ''{"a":"@@@@"}'' = Inl CorruptInputError\<close>
  by (simp add: DecodeOperationContext_def Unmarshal_def decode_bytes_def base64_decode_bad
      scan_eval)

lemma DecodeOperationContext_truncated:
  \<open>DecodeOperationContext ''{"a":'' = Inl SyntaxError\<close>
  by (simp add: DecodeOperationContext_def Unmarshal_def scan_eval)

lemma DecodeOperationContext_trailing_comma:
  \<open>DecodeOperationContext ''{"a":"eA==",}'' = Inl SyntaxError\<close>
  by (simp add: DecodeOperationContext_def Unmarshal_def scan_eval)

lemma char_of_xy: "char_of (120::nat) = CHR ''x''" "char_of (121::nat) = CHR ''y''"
  by code_simp+

lemma DecodeOperationContext_array_value:
  \<open>DecodeOperationContext ''{"a":[120, 121]}'' = Inr [''a'' \<mapsto> ''xy'']\<close>
  by (simp add: DecodeOperationContext_def Unmarshal_def decode_bytes_def decode_uint8_def
      char_of_xy scan_eval)

lemma marshal_context_example:
  \<open>marshal_context [(''a'', ''x''), (''bc'', ''xyz'')] = ''{"a":"eA==","bc":"eHl6"}''\<close>
  by code_simp

end
